theory Spec2Isabelle
  imports Complex_Main
begin

section \<open>Numbers of the source language\<close>

text \<open>
  The indicator engine (\<^verbatim>\<open>server/indicators.ts\<close>) computes with the \<^verbatim>\<open>number\<close> type of
  TypeScript: IEEE-754 binary64 values. A number is not-a-number, an infinity, or a finite
  value, which is a rational. The sign of zero is not modelled: no divisor of these functions
  can be a negative zero (the divisors are \<^verbatim>\<open>period\<close>, \<^verbatim>\<open>period + 1\<close>, a non-zero
  \<^verbatim>\<open>avgLoss\<close> and \<^verbatim>\<open>1 + rs\<close>), and nothing else observes it.

  Every arithmetic operation takes the arithmetic it is carried out in: \<open>Binary64\<close> rounds each
  exact result to the nearest binary64 value, ties to even, overflowing to an infinity, which is
  the program as it runs; \<open>Exact\<close> does not round, which is the reading of the formulas over
  the rationals.
\<close>

datatype number = NaN | PInf | NInf | Fin rat

datatype arith = Exact | Binary64

text \<open>The number of binary digits of a positive integer.\<close>

function bitlen :: "int \<Rightarrow> int" where
  "bitlen n = (if n \<le> 0 then 0 else 1 + bitlen (n div 2))"
  by pat_completeness auto
termination
  by (relation "measure nat") auto

declare bitlen.simps [simp del]

definition pow2 :: "int \<Rightarrow> rat" where
  "pow2 e = (if 0 \<le> e then 2 ^ nat e else 1 / 2 ^ nat (- e))"

text \<open>For \<open>0 < x\<close>, the exponent \<open>e\<close> with \<open>2 ^ e \<le> x < 2 ^ (e + 1)\<close>.\<close>

definition ilog2 :: "rat \<Rightarrow> int" where
  "ilog2 x = (if 1 \<le> x then bitlen \<lfloor>x\<rfloor> - 1 else - bitlen (\<lceil>1 / x\<rceil> - 1))"

definition round_even :: "rat \<Rightarrow> int" where
  "round_even x = (let f = \<lfloor>x\<rfloor>; r = x - of_int f
                   in if r < 1 / 2 then f else if 1 / 2 < r then f + 1
                      else if even f then f else f + 1)"

text \<open>
  Rounding to binary64: 53 significant bits, exponents from \<open>- 1022\<close> (below which the spacing
  stays \<open>2 ^ - 1074\<close>, the subnormal numbers) to \<open>1023\<close> (above which the result is infinite).
\<close>

definition fl64 :: "rat \<Rightarrow> number" where
  "fl64 x = (if x = 0 then Fin 0
             else let a = \<bar>x\<bar>;
                      e = max (ilog2 a) (- 1022);
                      u = pow2 (e - 52);
                      y = of_int (round_even (a / u)) * u
                  in if pow2 1024 \<le> y then (if 0 < x then PInf else NInf)
                     else Fin (if 0 < x then y else - y))"

fun rnd :: "arith \<Rightarrow> rat \<Rightarrow> number" where
  "rnd Exact x = Fin x"
| "rnd Binary64 x = fl64 x"

fun neg :: "number \<Rightarrow> number" where
  "neg NaN = NaN"
| "neg PInf = NInf"
| "neg NInf = PInf"
| "neg (Fin x) = Fin (- x)"

fun sign :: "number \<Rightarrow> int" where
  "sign NaN = 0"
| "sign PInf = 1"
| "sign NInf = - 1"
| "sign (Fin x) = (if 0 < x then 1 else if x < 0 then - 1 else 0)"

text \<open>\<^verbatim>\<open>a + b\<close>\<close>

fun num_add :: "arith \<Rightarrow> number \<Rightarrow> number \<Rightarrow> number" where
  "num_add m (Fin x) (Fin y) = rnd m (x + y)"
| "num_add m NaN b = NaN"
| "num_add m a NaN = NaN"
| "num_add m PInf NInf = NaN"
| "num_add m NInf PInf = NaN"
| "num_add m PInf b = PInf"
| "num_add m NInf b = NInf"
| "num_add m (Fin x) b = b"

text \<open>\<^verbatim>\<open>a - b\<close>\<close>

definition num_sub :: "arith \<Rightarrow> number \<Rightarrow> number \<Rightarrow> number" where
  "num_sub m a b = num_add m a (neg b)"

text \<open>\<^verbatim>\<open>a * b\<close>: an infinity times zero is not a number.\<close>

fun num_mul :: "arith \<Rightarrow> number \<Rightarrow> number \<Rightarrow> number" where
  "num_mul m (Fin x) (Fin y) = rnd m (x * y)"
| "num_mul m NaN b = NaN"
| "num_mul m a NaN = NaN"
| "num_mul m a b = (if sign a * sign b = 0 then NaN
                    else if 0 < sign a * sign b then PInf else NInf)"

text \<open>\<^verbatim>\<open>a / b\<close>: a division by zero is an infinity, or not a number when the dividend is zero.\<close>

fun num_div :: "arith \<Rightarrow> number \<Rightarrow> number \<Rightarrow> number" where
  "num_div m (Fin x) (Fin y) =
     (if y = 0 then (if x = 0 then NaN else if 0 < x then PInf else NInf) else rnd m (x / y))"
| "num_div m NaN b = NaN"
| "num_div m a NaN = NaN"
| "num_div m (Fin x) b = Fin 0"
| "num_div m a (Fin y) = (if (a = PInf) = (0 \<le> y) then PInf else NInf)"
| "num_div m a b = NaN"

text \<open>\<^verbatim>\<open>a < b\<close> and \<^verbatim>\<open>a > b\<close>: false when either side is not a number.\<close>

fun num_lt :: "number \<Rightarrow> number \<Rightarrow> bool" where
  "num_lt (Fin x) (Fin y) = (x < y)"
| "num_lt NaN b = False"
| "num_lt a NaN = False"
| "num_lt a NInf = False"
| "num_lt PInf b = False"
| "num_lt a b = True"

definition num_gt :: "number \<Rightarrow> number \<Rightarrow> bool" where
  "num_gt a b = num_lt b a"

text \<open>\<^verbatim>\<open>Math.abs(a)\<close>\<close>

fun Math_abs :: "number \<Rightarrow> number" where
  "Math_abs NaN = NaN"
| "Math_abs PInf = PInf"
| "Math_abs NInf = PInf"
| "Math_abs (Fin x) = Fin \<bar>x\<bar>"

definition isNaN :: "number \<Rightarrow> bool" where
  "isNaN a = (a = NaN)"

text \<open>A number in a condition, or on the left of \<^verbatim>\<open>||\<close>: zero and not-a-number are false.\<close>

definition truthy :: "number \<Rightarrow> bool" where
  "truthy a = (a \<noteq> NaN \<and> a \<noteq> Fin 0)"

text \<open>
  A value that may be \<^verbatim>\<open>undefined\<close> (an optional field, an index outside an array) is an
  option. \<^verbatim>\<open>undefined\<close> is false in a condition and not a number in arithmetic, in a
  comparison and under \<^verbatim>\<open>isNaN\<close>.
\<close>

definition truthy_opt :: "number option \<Rightarrow> bool" where
  "truthy_opt v = (case v of None \<Rightarrow> False | Some a \<Rightarrow> truthy a)"

definition to_number :: "number option \<Rightarrow> number" where
  "to_number v = (case v of None \<Rightarrow> NaN | Some a \<Rightarrow> a)"

text \<open>\<^verbatim>\<open>xs[i]\<close>\<close>

definition index :: "'a list \<Rightarrow> int \<Rightarrow> 'a option" where
  "index xs i = (if 0 \<le> i \<and> i < int (length xs) then Some (xs ! nat i) else None)"

text \<open>\<^verbatim>\<open>v || 0\<close>\<close>

definition or_zero :: "number option \<Rightarrow> number" where
  "or_zero v = (if truthy_opt v then to_number v else Fin 0)"

text \<open>
  \<^verbatim>\<open>xs.slice(start, end)\<close> and \<^verbatim>\<open>xs.slice(start)\<close>: a negative position counts from the end
  of the array, and both positions are clamped to the array.
\<close>

definition slice_pos :: "'a list \<Rightarrow> int \<Rightarrow> nat" where
  "slice_pos xs k = (let len = int (length xs)
                     in nat (if k < 0 then max (len + k) 0 else min k len))"

definition slice :: "'a list \<Rightarrow> int \<Rightarrow> int \<Rightarrow> 'a list" where
  "slice xs start end = take (slice_pos xs end - slice_pos xs start) (drop (slice_pos xs start) xs)"

definition slice_from :: "'a list \<Rightarrow> int \<Rightarrow> 'a list" where
  "slice_from xs start = drop (slice_pos xs start) xs"

text \<open>\<^verbatim>\<open>xs.reduce((a, b) => a + b, 0)\<close>\<close>

definition reduce_sum :: "arith \<Rightarrow> number list \<Rightarrow> number" where
  "reduce_sum m xs = foldl (num_add m) (Fin 0) xs"

section \<open>Moving averages\<close>

text \<open>
  The window \<^verbatim>\<open>period\<close> is a \<^verbatim>\<open>number\<close> in the source; every caller passes an integer
  (20, 50, 200, 12, 26, 14, 9), and it is an integer here. The iterations
  \<^verbatim>\<open>for (let i = 0; i < prices.length; i++)\<close> run over the indices in order, each pass
  pushing one element onto \<^verbatim>\<open>result\<close>.
\<close>

definition calculateSMA_step :: "arith \<Rightarrow> number list \<Rightarrow> int \<Rightarrow> nat \<Rightarrow> number list \<Rightarrow> number list" where
  "calculateSMA_step m prices period i result =
     (if int i < period - 1 then result @ [NaN]
      else let sum = reduce_sum m (slice prices (int i - period + 1) (int i + 1))
           in result @ [num_div m sum (Fin (of_int period))])"

definition calculateSMA :: "arith \<Rightarrow> number list \<Rightarrow> int \<Rightarrow> number list" where
  "calculateSMA m prices period = fold (calculateSMA_step m prices period) [0..<length prices] []"

definition calculateEMA_step ::
  "arith \<Rightarrow> number list \<Rightarrow> int \<Rightarrow> number \<Rightarrow> nat \<Rightarrow> number list \<Rightarrow> number list" where
  "calculateEMA_step m prices period multiplier i result =
     (if int i < period - 1 then result @ [NaN]
      else if int i = period - 1 then
        let sum = reduce_sum m (slice prices 0 period)
        in result @ [num_div m sum (Fin (of_int period))]
      else
        let prev = to_number (index result (int i - 1));
            ema = num_add m (num_mul m (num_sub m (prices ! i) prev) multiplier) prev
        in result @ [ema])"

definition calculateEMA :: "arith \<Rightarrow> number list \<Rightarrow> int \<Rightarrow> number list" where
  "calculateEMA m prices period =
     (let multiplier = num_div m (Fin 2) (Fin (of_int (period + 1)))
      in fold (calculateEMA_step m prices period multiplier) [0..<length prices] [])"

section \<open>Oscillators\<close>

definition changes_of :: "arith \<Rightarrow> number list \<Rightarrow> number list" where
  "changes_of m prices =
     fold (\<lambda>i changes. changes @ [num_sub m (prices ! i) (prices ! (i - 1))]) [1..<length prices] []"

definition gains_losses :: "arith \<Rightarrow> number list \<Rightarrow> number \<times> number" where
  "gains_losses m recentChanges =
     fold (\<lambda>change (gains, losses).
             if num_gt change (Fin 0) then (num_add m gains change, losses)
             else (gains, num_add m losses (Math_abs change)))
          recentChanges (Fin 0, Fin 0)"

definition calculateRSI :: "arith \<Rightarrow> number list \<Rightarrow> int \<Rightarrow> number" where
  "calculateRSI m prices period =
     (if int (length prices) < period + 1 then Fin 50
      else let changes = changes_of m prices;
               recentChanges = slice_from changes (- period);
               (gains, losses) = gains_losses m recentChanges;
               avgGain = num_div m gains (Fin (of_int period));
               avgLoss = num_div m losses (Fin (of_int period))
           in if avgLoss = Fin 0 then Fin 100
              else let rs = num_div m avgGain avgLoss;
                       rsi = num_sub m (Fin 100) (num_div m (Fin 100) (num_add m (Fin 1) rs))
                   in rsi)"

text \<open>The default of the parameter: \<^verbatim>\<open>period: number = 14\<close>.\<close>

definition calculateRSI_default :: "arith \<Rightarrow> number list \<Rightarrow> number" where
  "calculateRSI_default m prices = calculateRSI m prices 14"

record macd_result =
  macd :: number
  signal :: number
  histogram :: number

definition macdLine_of :: "arith \<Rightarrow> number list \<Rightarrow> number list \<Rightarrow> number list \<Rightarrow> number list" where
  "macdLine_of m prices ema12 ema26 =
     fold (\<lambda>i macdLine.
             if isNaN (to_number (index ema12 (int i))) \<or> isNaN (to_number (index ema26 (int i)))
             then macdLine @ [NaN]
             else macdLine @ [num_sub m (to_number (index ema12 (int i))) (to_number (index ema26 (int i)))])
          [0..<length prices] []"

definition calculateMACD :: "arith \<Rightarrow> number list \<Rightarrow> macd_result" where
  "calculateMACD m prices =
     (let ema12 = calculateEMA m prices 12;
          ema26 = calculateEMA m prices 26;
          macdLine = macdLine_of m prices ema12 ema26;
          validMacd = filter (\<lambda>v. \<not> isNaN v) macdLine;
          signalLine = calculateEMA m validMacd 9;
          macd = or_zero (index validMacd (int (length validMacd) - 1));
          signal = or_zero (index signalLine (int (length signalLine) - 1));
          histogram = num_sub m macd signal
      in \<lparr>macd = macd, signal = signal, histogram = histogram\<rparr>)"

section \<open>Indicator snapshot\<close>

text \<open>
  A row of the table \<^verbatim>\<open>stock_prices\<close> (\<^verbatim>\<open>shared/schema.ts\<close>); \<open>id\<close> and \<open>open\<close> carry a
  prime, the plain names being taken.
\<close>

record StockPrice =
  id' :: int
  stockId :: int
  date :: int
  open' :: number
  high :: number
  low :: number
  close :: number
  volume :: "int option"

text \<open>Every field of \<^verbatim>\<open>TechnicalIndicators\<close> is optional.\<close>

record TechnicalIndicators =
  sma20 :: "number option"
  sma50 :: "number option"
  sma200 :: "number option"
  ema12 :: "number option"
  ema26 :: "number option"
  rsi :: "number option"
  macd :: "number option"
  macdSignal :: "number option"
  macdHistogram :: "number option"

text \<open>The object \<^verbatim>\<open>{}\<close>.\<close>

definition no_indicators :: TechnicalIndicators where
  "no_indicators = \<lparr>sma20 = None, sma50 = None, sma200 = None, ema12 = None, ema26 = None,
     rsi = None, macd = None, macdSignal = None, macdHistogram = None\<rparr>"

definition calculateIndicators :: "arith \<Rightarrow> StockPrice list \<Rightarrow> TechnicalIndicators" where
  "calculateIndicators m prices =
     (if length prices = 0 then no_indicators
      else let closePrices = map close prices;
               sma20Arr = calculateSMA m closePrices 20;
               sma50Arr = calculateSMA m closePrices 50;
               sma200Arr = calculateSMA m closePrices 200;
               ema12Arr = calculateEMA m closePrices 12;
               ema26Arr = calculateEMA m closePrices 26;
               rsi = calculateRSI m closePrices 14;
               macdResult = calculateMACD m closePrices
           in \<lparr>sma20 = index sma20Arr (int (length sma20Arr) - 1),
               sma50 = index sma50Arr (int (length sma50Arr) - 1),
               sma200 = index sma200Arr (int (length sma200Arr) - 1),
               ema12 = index ema12Arr (int (length ema12Arr) - 1),
               ema26 = index ema26Arr (int (length ema26Arr) - 1),
               rsi = Some rsi,
               macd = Some (macd_result.macd macdResult),
               macdSignal = Some (signal macdResult),
               macdHistogram = Some (histogram macdResult)\<rparr>)"

section \<open>Signal scorer\<close>

text \<open>
  The three label types of the result; the source spells the middle value of each
  \<^verbatim>\<open>'neutral'\<close>.
\<close>

datatype trend_label = bullish | bearish | neutral

datatype rsi_label = oversold | overbought | rsi_neutral

datatype macd_label = buy | sell | macd_neutral

record signals =
  trend :: trend_label
  rsiSignal :: rsi_label
  macdSignal :: macd_label
  overallScore :: int

text \<open>
  \<^verbatim>\<open>score\<close> starts at 50 and changes by adding and subtracting 10 and 15 only: its values are
  small integers, which binary64 adds and subtracts without error, so it is a rational here.
  \<^verbatim>\<open>Math.round\<close> rounds to the nearest integer, a half upwards.
\<close>

definition Math_round :: "rat \<Rightarrow> int" where
  "Math_round x = \<lfloor>x + 1 / 2\<rfloor>"

text \<open>Trend analysis based on moving averages (the first block of \<^verbatim>\<open>analyzeStock\<close>).\<close>

definition trend_analysis :: "number \<Rightarrow> TechnicalIndicators \<Rightarrow> rat \<Rightarrow> trend_label \<times> rat" where
  "trend_analysis currentPrice indicators score =
     (if truthy_opt (sma20 indicators) \<and> truthy_opt (sma50 indicators) \<and> truthy_opt (sma200 indicators)
      then let (trend, score) =
                 (if num_gt currentPrice (to_number (sma20 indicators)) \<and>
                     num_gt (to_number (sma20 indicators)) (to_number (sma50 indicators))
                  then (bullish, score + 15)
                  else if num_lt currentPrice (to_number (sma20 indicators)) \<and>
                          num_lt (to_number (sma20 indicators)) (to_number (sma50 indicators))
                  then (bearish, score - 15)
                  else (neutral, score));
               score = (if num_gt currentPrice (to_number (sma200 indicators))
                        then score + 10 else score - 10)
           in (trend, score)
      else (neutral, score))"

text \<open>RSI analysis (the second block).\<close>

definition rsi_analysis :: "TechnicalIndicators \<Rightarrow> rat \<Rightarrow> rsi_label \<times> rat" where
  "rsi_analysis indicators score =
     (if rsi indicators \<noteq> None
      then if num_lt (to_number (rsi indicators)) (Fin 30) then (oversold, score + 10)
           else if num_gt (to_number (rsi indicators)) (Fin 70) then (overbought, score - 10)
           else (rsi_neutral, score)
      else (rsi_neutral, score))"

text \<open>MACD analysis (the third block).\<close>

definition macd_analysis :: "TechnicalIndicators \<Rightarrow> rat \<Rightarrow> macd_label \<times> rat" where
  "macd_analysis indicators score =
     (if macd indicators \<noteq> None \<and> TechnicalIndicators.macdSignal indicators \<noteq> None
      then if num_gt (to_number (macd indicators)) (to_number (TechnicalIndicators.macdSignal indicators)) \<and>
              num_gt (to_number (macdHistogram indicators)) (Fin 0)
           then (buy, score + 10)
           else if num_lt (to_number (macd indicators)) (to_number (TechnicalIndicators.macdSignal indicators)) \<and>
                   num_lt (to_number (macdHistogram indicators)) (Fin 0)
           then (sell, score - 10)
           else (macd_neutral, score)
      else (macd_neutral, score))"

text \<open>The labels and the score as they stand before the clamp.\<close>

definition analyzeStock_blocks ::
  "number \<Rightarrow> TechnicalIndicators \<Rightarrow> trend_label \<times> rsi_label \<times> macd_label \<times> rat" where
  "analyzeStock_blocks currentPrice indicators =
     (let score = 50;
          (trend, score) = trend_analysis currentPrice indicators score;
          (rsiSignal, score) = rsi_analysis indicators score;
          (macdSignal, score) = macd_analysis indicators score
      in (trend, rsiSignal, macdSignal, score))"

definition raw_score :: "number \<Rightarrow> TechnicalIndicators \<Rightarrow> rat" where
  "raw_score currentPrice indicators = snd (snd (snd (analyzeStock_blocks currentPrice indicators)))"

definition analyzeStock :: "number \<Rightarrow> TechnicalIndicators \<Rightarrow> signals" where
  "analyzeStock currentPrice indicators =
     (let (trend, rsiSignal, macdSignal, score) = analyzeStock_blocks currentPrice indicators;
          score = max 0 (min 100 score)
      in \<lparr>trend = trend, rsiSignal = rsiSignal, macdSignal = macdSignal,
          overallScore = Math_round score\<rparr>)"

section \<open>Terms of the specification\<close>

text \<open>
  The arithmetic mean of a sequence: the sum of its elements, added up from 0 in their order,
  divided by their number.
\<close>

definition mean :: "arith \<Rightarrow> number list \<Rightarrow> number" where
  "mean m xs = num_div m (reduce_sum m xs) (Fin (of_nat (length xs)))"

text \<open>The element that \<open>calculateSMA\<close> pushes at index \<open>i\<close>.\<close>

definition sma_elem :: "arith \<Rightarrow> number list \<Rightarrow> int \<Rightarrow> nat \<Rightarrow> number" where
  "sma_elem m prices period i =
     (if int i < period - 1 then NaN
      else num_div m (reduce_sum m (slice prices (int i - period + 1) (int i + 1))) (Fin (of_int period)))"

text \<open>
  A snapshot on which every rule of the scorer adds to the score, at the price 120, and one on
  which every rule subtracts from it, at the price 80.
\<close>

definition bullish_snapshot :: TechnicalIndicators where
  "bullish_snapshot = \<lparr>sma20 = Some (Fin 110), sma50 = Some (Fin 100), sma200 = Some (Fin 90),
     ema12 = None, ema26 = None, rsi = Some (Fin 20),
     macd = Some (Fin 2), macdSignal = Some (Fin 1), macdHistogram = Some (Fin 1)\<rparr>"

definition bearish_snapshot :: TechnicalIndicators where
  "bearish_snapshot = \<lparr>sma20 = Some (Fin 90), sma50 = Some (Fin 100), sma200 = Some (Fin 110),
     ema12 = None, ema26 = None, rsi = Some (Fin 80),
     macd = Some (Fin 1), macdSignal = Some (Fin 2), macdHistogram = Some (Fin (- 1))\<rparr>"

text \<open>
  The multiplier of \<open>calculateEMA\<close> and the element that it pushes at index \<open>i\<close> onto
  \<open>result\<close>.
\<close>

definition ema_multiplier :: "arith \<Rightarrow> int \<Rightarrow> number" where
  "ema_multiplier m period = num_div m (Fin 2) (Fin (of_int (period + 1)))"

definition ema_elem :: "arith \<Rightarrow> number list \<Rightarrow> int \<Rightarrow> number \<Rightarrow> nat \<Rightarrow> number list \<Rightarrow> number" where
  "ema_elem m prices period multiplier i result =
     (if int i < period - 1 then NaN
      else if int i = period - 1 then
        num_div m (reduce_sum m (slice prices 0 period)) (Fin (of_int period))
      else
        num_add m (num_mul m (num_sub m (prices ! i) (to_number (index result (int i - 1)))) multiplier)
          (to_number (index result (int i - 1))))"

text \<open>\<^verbatim>\<open>a >= b\<close>: a difference is non-negative when it is \<open>num_ge\<close> 0.\<close>

definition num_ge :: "number \<Rightarrow> number \<Rightarrow> bool" where
  "num_ge a b = (a \<noteq> NaN \<and> b \<noteq> NaN \<and> \<not> num_lt a b)"

text \<open>
  The MACD line, its compacted sequence and the signal line, as the specification describes
  them: the difference of the two averages wherever both are defined, the defined entries
  alone, and the average with window 9 of those.
\<close>

definition macd_line_spec :: "arith \<Rightarrow> number list \<Rightarrow> number list \<Rightarrow> number list" where
  "macd_line_spec m e12 e26 =
     map (\<lambda>(a, b). if a = NaN \<or> b = NaN then NaN else num_sub m a b) (zip e12 e26)"

definition valid_macd_spec :: "arith \<Rightarrow> number list \<Rightarrow> number list" where
  "valid_macd_spec m prices =
     filter (\<lambda>v. v \<noteq> NaN) (macd_line_spec m (calculateEMA m prices 12) (calculateEMA m prices 26))"

definition signal_line_spec :: "arith \<Rightarrow> number list \<Rightarrow> number list" where
  "signal_line_spec m prices = calculateEMA m (valid_macd_spec m prices) 9"

text \<open>
  The last value of a sequence, 0 if it is empty; and the last value if that is a number, 0 if
  the sequence is empty or its last value is not a number.
\<close>

definition last_or_zero :: "number list \<Rightarrow> number" where
  "last_or_zero xs = (if xs = [] then Fin 0 else last xs)"

definition last_defined_or_zero :: "number list \<Rightarrow> number" where
  "last_defined_or_zero xs = (if xs = [] \<or> last xs = NaN then Fin 0 else last xs)"


text \<open>Twenty-six days at the price 100.\<close>

definition flat26 :: "number list" where
  "flat26 = replicate 26 (Fin 100)"



text \<open>What each label of the result stands for in the score.\<close>

fun trend_bonus :: "trend_label \<Rightarrow> rat" where
  "trend_bonus bullish = 15"
| "trend_bonus bearish = - 15"
| "trend_bonus neutral = 0"

fun rsi_bonus :: "rsi_label \<Rightarrow> rat" where
  "rsi_bonus oversold = 10"
| "rsi_bonus overbought = - 10"
| "rsi_bonus rsi_neutral = 0"

fun macd_bonus :: "macd_label \<Rightarrow> rat" where
  "macd_bonus buy = 10"
| "macd_bonus sell = - 10"
| "macd_bonus macd_neutral = 0"

text \<open>A snapshot whose three simple moving averages are present, the shortest being zero.\<close>

definition zero_sma_snapshot :: TechnicalIndicators where
  "zero_sma_snapshot = \<lparr>sma20 = Some (Fin 0), sma50 = Some (Fin 5), sma200 = Some (Fin 5),
     ema12 = None, ema26 = None, rsi = None, macd = None, macdSignal = None, macdHistogram = None\<rparr>"

section \<open>Iterations that push one element per pass\<close>

lemma fold_upt_Suc: "fold f [0..<Suc n] a = f n (fold f [0..<n] a)"
  by simp

lemma push_loop_length:
  assumes "\<And>i r. f i r = r @ [g i r]"
  shows "length (fold f [0..<n] []) = n"
proof (induction n)
  case 0
  show ?case by simp
next
  case (Suc n)
  have "fold f [0..<Suc n] [] = fold f [0..<n] [] @ [g n (fold f [0..<n] [])]"
    using assms by simp
  with Suc show ?case by simp
qed

lemma push_loop_take:
  assumes "\<And>i r. f i r = r @ [g i r]"
  shows "n \<le> k \<Longrightarrow> take n (fold f [0..<k] []) = fold f [0..<n] []"
proof (induction k)
  case 0
  then show ?case by simp
next
  case (Suc k)
  have len: "length (fold f [0..<k] []) = k"
    using assms by (rule push_loop_length)
  have unf: "fold f [0..<Suc k] [] = fold f [0..<k] [] @ [g k (fold f [0..<k] [])]"
    using assms by simp
  show ?case
  proof (cases "n = Suc k")
    case True
    have "length (fold f [0..<Suc k] []) = Suc k"
      using assms by (rule push_loop_length)
    with True show ?thesis by simp
  next
    case False
    with Suc.prems have "n \<le> k" by simp
    with Suc.IH len unf show ?thesis by simp
  qed
qed

lemma push_loop_nth:
  assumes "\<And>i r. f i r = r @ [g i r]"
  shows "i < n \<Longrightarrow> fold f [0..<n] [] ! i = g i (fold f [0..<i] [])"
proof -
  assume "i < n"
  then have "Suc i \<le> n" by simp
  have len: "length (fold f [0..<i] []) = i"
    using assms by (rule push_loop_length)
  have "fold f [0..<n] [] ! i = take (Suc i) (fold f [0..<n] []) ! i"
    by simp
  also have "take (Suc i) (fold f [0..<n] []) = fold f [0..<Suc i] []"
    using assms \<open>Suc i \<le> n\<close> by (rule push_loop_take)
  also have "\<dots> = fold f [0..<i] [] @ [g i (fold f [0..<i] [])]"
    using assms by simp
  finally show ?thesis
    using len by (simp add: nth_append)
qed

lemma calculateSMA_step_push:
  "calculateSMA_step m prices period i r = r @ [sma_elem m prices period i]"
  by (simp add: calculateSMA_step_def sma_elem_def Let_def)

lemma calculateSMA_length: "length (calculateSMA m prices period) = length prices"
  unfolding calculateSMA_def
  by (rule push_loop_length [where g = "\<lambda>i r. sma_elem m prices period i"])
     (rule calculateSMA_step_push)

lemma calculateSMA_nth:
  "i < length prices \<Longrightarrow> calculateSMA m prices period ! i = sma_elem m prices period i"
  unfolding calculateSMA_def
  by (rule push_loop_nth [where g = "\<lambda>i r. sma_elem m prices period i"])
     (rule calculateSMA_step_push)

lemma slice_pos_nat: "n \<le> length xs \<Longrightarrow> slice_pos xs (int n) = n"
  by (simp add: slice_pos_def Let_def)

lemma slice_window:
  assumes "1 \<le> W" "W - 1 \<le> i" "i < length prices"
  shows "slice prices (int i - int W + 1) (int i + 1) = take W (drop (i + 1 - W) prices)"
proof -
  have e1: "int i + 1 = int (i + 1)"
    by simp
  have e2: "int i - int W + 1 = int (i + 1 - W)"
    using assms by linarith
  have a: "slice_pos prices (int i + 1) = i + 1"
    unfolding e1 using assms by (intro slice_pos_nat) simp
  have b: "slice_pos prices (int i - int W + 1) = i + 1 - W"
    unfolding e2 using assms by (intro slice_pos_nat) simp
  have "i + 1 - (i + 1 - W) = W"
    using assms by simp
  with a b show ?thesis
    by (simp add: slice_def)
qed

lemma calculateSMA_window:
  assumes "1 \<le> W" "W - 1 \<le> i" "i < length prices"
  shows "calculateSMA m prices (int W) ! i = mean m (take W (drop (i + 1 - W) prices))"
proof -
  have len: "length (take W (drop (i + 1 - W) prices)) = W"
    using assms by simp
  have "\<not> int i < int W - 1"
    using assms by linarith
  then show ?thesis
    using assms len by (simp add: calculateSMA_nth sma_elem_def slice_window mean_def)
qed

lemma calculateSMA_early:
  assumes "i < W - 1" "i < length prices"
  shows "calculateSMA m prices (int W) ! i = NaN"
proof -
  have "int i < int W - 1"
    using assms by linarith
  then show ?thesis
    using assms by (simp add: calculateSMA_nth sma_elem_def)
qed

section \<open>Rounding of integers\<close>

lemma bitlen_nonneg: "0 \<le> bitlen n"
proof (induction n rule: bitlen.induct)
  case (1 n)
  then show ?case
    by (subst bitlen.simps) auto
qed

lemma bitlen_pos: "0 < n \<Longrightarrow> 1 \<le> bitlen n"
  using bitlen_nonneg [of "n div 2"] by (subst bitlen.simps) simp

lemma bitlen_lower: "0 < n \<Longrightarrow> 2 ^ nat (bitlen n - 1) \<le> n"
proof (induction n rule: bitlen.induct)
  case (1 n)
  show ?case
  proof (cases "n = 1")
    case True
    then show ?thesis
      by (subst bitlen.simps) (simp add: bitlen.simps [of 0])
  next
    case False
    with "1.prems" have h: "0 < n div 2" "\<not> n \<le> 0"
      by auto
    have ih: "2 ^ nat (bitlen (n div 2) - 1) \<le> n div 2"
      using "1.IH" h by simp
    have b: "bitlen n = 1 + bitlen (n div 2)"
      using h by (subst bitlen.simps) simp
    have "nat (bitlen n - 1) = Suc (nat (bitlen (n div 2) - 1))"
      using b bitlen_pos [OF h(1)] by simp
    then have "(2::int) ^ nat (bitlen n - 1) = 2 * 2 ^ nat (bitlen (n div 2) - 1)"
      by simp
    also have "\<dots> \<le> 2 * (n div 2)"
      using ih by simp
    also have "\<dots> \<le> n"
      by simp
    finally show ?thesis .
  qed
qed

lemma bitlen_le_53:
  assumes "0 < k" "k < 2 ^ 53"
  shows "bitlen k \<le> 53"
proof (rule ccontr)
  assume "\<not> bitlen k \<le> 53"
  then have "53 \<le> nat (bitlen k - 1)"
    by simp
  then have "(2::int) ^ 53 \<le> 2 ^ nat (bitlen k - 1)"
    by (rule power_increasing) simp
  also have "\<dots> \<le> k"
    using assms(1) by (rule bitlen_lower)
  finally show False
    using assms(2) by simp
qed

lemma floor_rat_numeral_div [simp]:
  "\<lfloor>numeral a / numeral b :: rat\<rfloor> = numeral a div numeral b"
  by (metis floor_divide_of_int_eq of_int_numeral)

lemma floor_rat_one_div [simp]:
  "\<lfloor>1 / numeral b :: rat\<rfloor> = 1 div numeral b"
  by (metis floor_divide_of_int_eq of_int_1 of_int_numeral)

lemma ceiling_rat_numeral_div [simp]:
  "\<lceil>numeral a / numeral b :: rat\<rceil> = - (- numeral a div numeral b)"
  by (metis ceiling_def floor_divide_of_int_eq minus_divide_left of_int_minus of_int_numeral)

lemma round_even_of_int: "round_even (of_int j) = j"
  by (simp add: round_even_def)

lemma fl64_0 [simp]: "fl64 0 = Fin 0"
  by (simp add: fl64_def)

lemma fl64_pos_int:
  assumes "0 < k" "k < 2 ^ 53"
  shows "fl64 (of_int k) = Fin (of_int k)" and "fl64 (- of_int k) = Fin (- of_int k)"
proof -
  define e where "e = bitlen k - 1"
  define d where "d = nat (52 - e)"
  have e: "0 \<le> e" "e \<le> 52"
    using bitlen_pos [OF assms(1)] bitlen_le_53 [OF assms] by (simp_all add: e_def)
  have il: "ilog2 (of_int k) = e"
    using assms(1) by (simp add: ilog2_def e_def)
  have u: "pow2 (e - 52) = 1 / 2 ^ d"
    using e by (cases "e = 52") (simp_all add: pow2_def d_def)
  have "round_even (of_int (k * 2 ^ d)) = k * 2 ^ d"
    by (rule round_even_of_int)
  then have r: "round_even (of_int k * 2 ^ d) = k * 2 ^ d"
    by simp
  have "(of_int k :: rat) < of_int (2 ^ 53)"
    using assms(2) unfolding of_int_less_iff .
  also have "\<dots> < 2 ^ 1024"
    by simp
  finally have small: "\<not> pow2 1024 \<le> (of_int k :: rat)"
    by (simp add: pow2_def)
  have a: "\<bar>of_int k :: rat\<bar> = of_int k" "(of_int k :: rat) \<noteq> 0" "(0::rat) < of_int k"
    using assms(1) by simp_all
  show "fl64 (of_int k) = Fin (of_int k)"
    using e small assms(1) by (simp add: fl64_def Let_def a il u r)
  show "fl64 (- of_int k) = Fin (- of_int k)"
    using e small assms(1) by (simp add: fl64_def Let_def a il u r)
qed

lemma fl64_int:
  assumes "\<bar>n\<bar> < 2 ^ 53"
  shows "fl64 (of_int n) = Fin (of_int n)"
proof (cases "n = 0")
  case True
  then show ?thesis by (simp add: fl64_0)
next
  case False
  show ?thesis
  proof (cases "0 < n")
    case True
    with assms show ?thesis by (simp add: fl64_pos_int(1))
  next
    case neg: False
    with False assms have "0 < - n" "- n < 2 ^ 53" by simp_all
    then have "fl64 (- of_int (- n)) = Fin (- of_int (- n))"
      by (rule fl64_pos_int(2))
    then show ?thesis by simp
  qed
qed

lemma fl64_numeral [simp]: "numeral k < (2::int) ^ 53 \<Longrightarrow> fl64 (numeral k) = Fin (numeral k)"
  using fl64_int [of "numeral k"] by simp

lemma fl64_neg_numeral [simp]:
  "numeral k < (2::int) ^ 53 \<Longrightarrow> fl64 (- numeral k) = Fin (- numeral k)"
  using fl64_int [of "- numeral k"] by simp

lemma fl64_1 [simp]: "fl64 1 = Fin 1"
  using fl64_int [of 1] by simp

lemma rnd_0 [simp]: "rnd m 0 = Fin 0"
  by (cases m) (simp_all add: fl64_0)

lemma rnd_int: "\<bar>n\<bar> < 2 ^ 53 \<Longrightarrow> rnd m (of_int n) = Fin (of_int n)"
  by (cases m) (simp_all add: fl64_int)

lemma rnd_numeral [simp]: "numeral k < (2::int) ^ 53 \<Longrightarrow> rnd m (numeral k) = Fin (numeral k)"
  using rnd_int [of "numeral k" m] by simp

lemma rnd_1 [simp]: "rnd m 1 = Fin 1"
  using rnd_int [of 1 m] by simp

lemma rnd_neg_numeral [simp]:
  "numeral k < (2::int) ^ 53 \<Longrightarrow> rnd m (- numeral k) = Fin (- numeral k)"
  using rnd_int [of "- numeral k" m] by simp

section \<open>Simple moving average\<close>

lemma sma_example:
  "calculateSMA m [Fin 1, Fin 2, Fin 3, Fin 4, Fin 5] 3 = [NaN, NaN, Fin 2, Fin 3, Fin 4]"
  by (simp add: calculateSMA_def calculateSMA_step_def upt_rec [of 0] upt_rec [of 1] upt_rec [of 2] upt_rec [of 3] upt_rec [of 4] reduce_sum_def slice_def slice_pos_def Let_def)

text \<open>In exact arithmetic the mean is the sum of the values divided by their number.\<close>

lemma foldl_exact: "foldl (num_add Exact) (Fin a) (map Fin xs) = Fin (a + sum_list xs)"
  by (induction xs arbitrary: a) (simp_all add: add.assoc)

lemma mean_exact:
  "xs \<noteq> [] \<Longrightarrow> mean Exact (map Fin xs) = Fin (sum_list xs / of_nat (length xs))"
  by (simp add: mean_def reduce_sum_def foldl_exact)

text \<open>
  C1. For a price sequence of length \<open>N\<close> and a window \<open>1 \<le> W \<le> N\<close>, \<open>calculateSMA\<close>
  returns \<open>N\<close> elements; those at the indices below \<open>W - 1\<close> are not-a-number, and the one at
  each index \<open>i \<ge> W - 1\<close> is the mean of \<open>prices[i - W + 1 .. i]\<close>. In particular the window 3
  over 1, 2, 3, 4, 5 gives NaN, NaN, 2, 3, 4. This holds in both arithmetics.
\<close>

theorem calculateSMA_mean:
  "(1 \<le> W \<and> W \<le> length prices \<longrightarrow>
      length (calculateSMA m prices (int W)) = length prices \<and>
      (\<forall>i. i < W - 1 \<longrightarrow> calculateSMA m prices (int W) ! i = NaN) \<and>
      (\<forall>i. W - 1 \<le> i \<and> i < length prices \<longrightarrow>
           calculateSMA m prices (int W) ! i = mean m (take W (drop (i + 1 - W) prices)))) \<and>
   calculateSMA m [Fin 1, Fin 2, Fin 3, Fin 4, Fin 5] 3 = [NaN, NaN, Fin 2, Fin 3, Fin 4]"
proof -
  have "calculateSMA m prices (int W) ! i = NaN" if "W \<le> length prices" "i < W - 1" for i
    using that by (intro calculateSMA_early) simp_all
  moreover have "calculateSMA m prices (int W) ! i = mean m (take W (drop (i + 1 - W) prices))"
    if "1 \<le> W" "W - 1 \<le> i" "i < length prices" for i
    using that by (rule calculateSMA_window)
  ultimately show ?thesis
    by (simp add: calculateSMA_length sma_example)
qed

theorem calculateSMA_mean_witness:
  "(1::nat) \<le> 3 \<and> 3 \<le> length [Fin 1, Fin 2, Fin 3, Fin 4, Fin 5] \<and>
   length (calculateSMA Binary64 [Fin 1, Fin 2, Fin 3, Fin 4, Fin 5] (int 3)) = 5 \<and>
   calculateSMA Binary64 [Fin 1, Fin 2, Fin 3, Fin 4, Fin 5] (int 3) ! 1 = NaN \<and>
   calculateSMA Binary64 [Fin 1, Fin 2, Fin 3, Fin 4, Fin 5] (int 3) ! 3 = mean Binary64 [Fin 2, Fin 3, Fin 4] \<and>
   mean Binary64 [Fin 2, Fin 3, Fin 4] = Fin 3"
proof -
  let ?p = "[Fin 1, Fin 2, Fin 3, Fin 4, Fin 5]"
  have h: "(1::nat) \<le> 3 \<and> 3 \<le> length ?p"
    by simp
  have t: "length (calculateSMA Binary64 ?p (int 3)) = length ?p \<and>
      (\<forall>i. i < 3 - 1 \<longrightarrow> calculateSMA Binary64 ?p (int 3) ! i = NaN) \<and>
      (\<forall>i. 3 - 1 \<le> i \<and> i < length ?p \<longrightarrow>
           calculateSMA Binary64 ?p (int 3) ! i = mean Binary64 (take 3 (drop (i + 1 - 3) ?p)))"
    using calculateSMA_mean [of 3 ?p Binary64] h by blast
  from t have a: "length (calculateSMA Binary64 ?p (int 3)) = length ?p"
    by blast
  from t have "1 < (3::nat) - 1 \<longrightarrow> calculateSMA Binary64 ?p (int 3) ! 1 = NaN"
    by blast
  then have b: "calculateSMA Binary64 ?p (int 3) ! 1 = NaN"
    by simp
  from t have "3 - 1 \<le> (3::nat) \<and> 3 < length ?p \<longrightarrow>
      calculateSMA Binary64 ?p (int 3) ! 3 = mean Binary64 (take 3 (drop (3 + 1 - 3) ?p))"
    by blast
  then have c: "calculateSMA Binary64 ?p (int 3) ! 3 = mean Binary64 [Fin 2, Fin 3, Fin 4]"
    by simp
  have "mean Binary64 [Fin 2, Fin 3, Fin 4] = Fin 3"
    by (simp add: mean_def reduce_sum_def)
  with a b c show ?thesis
    by simp
qed

section \<open>Insufficient data\<close>

text \<open>
  C7. On fewer than \<open>period + 1\<close> prices \<open>calculateRSI\<close> returns 50, whatever the period; with
  the default period 14 it returns 50 on fewer than 15 prices.
\<close>

theorem calculateRSI_short:
  "(int (length prices) < period + 1 \<longrightarrow> calculateRSI m prices period = Fin 50) \<and>
   (length prices < 15 \<longrightarrow> calculateRSI_default m prices = Fin 50)"
  by (simp add: calculateRSI_def calculateRSI_default_def)

theorem calculateRSI_short_witness:
  "int (length (replicate 10 (Fin 100))) < 14 + 1 \<and> length (replicate 10 (Fin 100)) < 15 \<and>
   calculateRSI Binary64 (replicate 10 (Fin 100)) 14 = Fin 50 \<and>
   calculateRSI_default Binary64 (replicate 10 (Fin 100)) = Fin 50"
  using calculateRSI_short [of "replicate 10 (Fin 100)" 14 Binary64] by simp

text \<open>
  C8. \<open>calculateIndicators\<close> on no price bars returns the snapshot with every field absent,
  and \<open>analyzeStock\<close> on that snapshot, at any price, returns the three neutral labels and the
  score 50.
\<close>

theorem empty_round_trip:
  "calculateIndicators m [] = no_indicators \<and>
   analyzeStock currentPrice (calculateIndicators m []) =
     \<lparr>trend = neutral, rsiSignal = rsi_neutral, macdSignal = macd_neutral, overallScore = 50\<rparr>"
  by (simp add: calculateIndicators_def no_indicators_def analyzeStock_def analyzeStock_blocks_def
      trend_analysis_def rsi_analysis_def macd_analysis_def truthy_opt_def Math_round_def Let_def)

section \<open>Range of the score\<close>

lemma trend_analysis_cases:
  "snd (trend_analysis p ind s) \<in> {s + 25, s + 5, s - 25, s - 5, s + 10, s - 10, s}"
  by (simp add: trend_analysis_def Let_def)

lemma rsi_analysis_cases: "snd (rsi_analysis ind s) \<in> {s + 10, s - 10, s}"
  by (simp add: rsi_analysis_def)

lemma macd_analysis_cases: "snd (macd_analysis ind s) \<in> {s + 10, s - 10, s}"
  by (simp add: macd_analysis_def)

lemma raw_score_unfold:
  "raw_score p ind =
     snd (macd_analysis ind (snd (rsi_analysis ind (snd (trend_analysis p ind 50)))))"
  by (simp add: raw_score_def analyzeStock_blocks_def Let_def split_beta)

lemma raw_score_values:
  "5 \<le> raw_score p ind \<and> raw_score p ind \<le> 95 \<and> raw_score p ind \<in> \<int>"
proof -
  define a where "a = snd (trend_analysis p ind 50)"
  define b where "b = snd (rsi_analysis ind a)"
  define c where "c = snd (macd_analysis ind b)"
  have a: "a \<in> {75, 55, 25, 45, 60, 40, 50}"
    using trend_analysis_cases [of p ind 50] by (simp add: a_def)
  have b: "b \<in> {a + 10, a - 10, a}"
    unfolding b_def by (rule rsi_analysis_cases)
  have c: "c \<in> {b + 10, b - 10, b}"
    unfolding c_def by (rule macd_analysis_cases)
  have "5 \<le> c \<and> c \<le> 95 \<and> c \<in> \<int>"
    using a b c by auto
  then show ?thesis
    by (simp add: raw_score_unfold a_def b_def c_def)
qed

lemma overallScore_unfold:
  "overallScore (analyzeStock p ind) = Math_round (max 0 (min 100 (raw_score p ind)))"
  by (simp add: analyzeStock_def raw_score_def Let_def split_beta)

lemma Math_round_of_int: "Math_round (of_int k) = k"
  by (simp add: Math_round_def)

lemma analyzeStock_bullish:
  "analyzeStock (Fin 120) bullish_snapshot = \<lparr>trend = bullish, rsiSignal = oversold, macdSignal = buy, overallScore = 95\<rparr>"
  by (simp add: analyzeStock_def analyzeStock_blocks_def trend_analysis_def rsi_analysis_def macd_analysis_def
      bullish_snapshot_def truthy_opt_def truthy_def to_number_def num_gt_def Math_round_def Let_def)

lemma analyzeStock_bearish:
  "analyzeStock (Fin 80) bearish_snapshot = \<lparr>trend = bearish, rsiSignal = overbought, macdSignal = sell, overallScore = 5\<rparr>"
  by (simp add: analyzeStock_def analyzeStock_blocks_def trend_analysis_def rsi_analysis_def macd_analysis_def
      bearish_snapshot_def truthy_opt_def truthy_def to_number_def num_gt_def Math_round_def Let_def)

lemma raw_bullish: "raw_score (Fin 120) bullish_snapshot = 95"
  by (simp add: raw_score_def analyzeStock_blocks_def trend_analysis_def rsi_analysis_def macd_analysis_def
      bullish_snapshot_def truthy_opt_def truthy_def to_number_def num_gt_def Let_def)

lemma raw_bearish: "raw_score (Fin 80) bearish_snapshot = 5"
  by (simp add: raw_score_def analyzeStock_blocks_def trend_analysis_def rsi_analysis_def macd_analysis_def
      bearish_snapshot_def truthy_opt_def truthy_def to_number_def num_gt_def Let_def)

text \<open>
  C10. The score of \<open>analyzeStock\<close> before the clamp lies between 5 and 95, so the clamp to
  \<open>[0, 100]\<close> leaves it as it is, and the returned \<open>overallScore\<close> is that integer.
\<close>

theorem raw_score_range:
  "5 \<le> raw_score currentPrice indicators \<and> raw_score currentPrice indicators \<le> 95 \<and>
   max 0 (min 100 (raw_score currentPrice indicators)) = raw_score currentPrice indicators \<and>
   of_int (overallScore (analyzeStock currentPrice indicators)) = raw_score currentPrice indicators \<and>
   5 \<le> overallScore (analyzeStock currentPrice indicators) \<and>
   overallScore (analyzeStock currentPrice indicators) \<le> 95"
proof -
  obtain k :: int where r: "raw_score currentPrice indicators = of_int k"
    using raw_score_values [of currentPrice indicators] by (auto elim: Ints_cases)
  have k: "5 \<le> k" "k \<le> 95"
    using raw_score_values [of currentPrice indicators] unfolding r by simp_all
  have "max 0 (min 100 (of_int k :: rat)) = of_int k"
    using k by simp
  then show ?thesis
    using k by (simp add: overallScore_unfold r Math_round_of_int)
qed

section \<open>Exponential moving average\<close>

lemma calculateEMA_step_push:
  "calculateEMA_step m prices period k i r = r @ [ema_elem m prices period k i r]"
  by (simp add: calculateEMA_step_def ema_elem_def Let_def)

lemma calculateEMA_fold:
  "calculateEMA m prices period =
     fold (calculateEMA_step m prices period (ema_multiplier m period)) [0..<length prices] []"
  by (simp add: calculateEMA_def ema_multiplier_def)

lemma calculateEMA_length: "length (calculateEMA m prices period) = length prices"
  unfolding calculateEMA_fold
  by (rule push_loop_length [where g = "ema_elem m prices period (ema_multiplier m period)"])
     (rule calculateEMA_step_push)

lemma calculateEMA_nth:
  assumes "i < length prices"
  shows "calculateEMA m prices period ! i =
           ema_elem m prices period (ema_multiplier m period) i (take i (calculateEMA m prices period))"
proof -
  let ?f = "calculateEMA_step m prices period (ema_multiplier m period)"
  let ?g = "ema_elem m prices period (ema_multiplier m period)"
  have push: "\<And>i r. ?f i r = r @ [?g i r]"
    by (rule calculateEMA_step_push)
  have "i \<le> length prices"
    using assms by simp
  then have "take i (fold ?f [0..<length prices] []) = fold ?f [0..<i] []"
    by (rule push_loop_take [OF push])
  moreover have "fold ?f [0..<length prices] [] ! i = ?g i (fold ?f [0..<i] [])"
    using assms by (rule push_loop_nth [OF push])
  ultimately show ?thesis
    by (simp add: calculateEMA_fold)
qed

lemma index_take_prev:
  assumes "1 \<le> i" "i \<le> length xs"
  shows "index (take i xs) (int i - 1) = Some (xs ! (i - 1))"
proof -
  have "nat (int i - 1) = i - 1"
    by simp
  then show ?thesis
    using assms by (simp add: index_def)
qed

lemma calculateEMA_early:
  assumes "int i < period - 1" "i < length prices"
  shows "calculateEMA m prices period ! i = NaN"
  using assms by (simp add: calculateEMA_nth ema_elem_def)

lemma slice_prefix: "W \<le> length prices \<Longrightarrow> slice prices 0 (int W) = take W prices"
  by (simp add: slice_def slice_pos_nat) (simp add: slice_pos_def)

lemma calculateEMA_seed:
  assumes "1 \<le> W" "W \<le> length prices"
  shows "calculateEMA m prices (int W) ! (W - 1) = mean m (take W prices)"
proof -
  have "int (W - 1) = int W - 1"
    using assms by simp
  moreover have "W - 1 < length prices"
    using assms by simp
  ultimately show ?thesis
    using assms by (simp add: calculateEMA_nth ema_elem_def slice_prefix mean_def)
qed

lemma calculateEMA_rec:
  assumes "period - 1 < int i" "1 \<le> i" "i < length prices"
  shows "calculateEMA m prices period ! i =
           num_add m (num_mul m (num_sub m (prices ! i) (calculateEMA m prices period ! (i - 1)))
                        (ema_multiplier m period))
             (calculateEMA m prices period ! (i - 1))"
proof -
  have "i \<le> length (calculateEMA m prices period)"
    using assms by (simp add: calculateEMA_length)
  with assms(2) have "index (take i (calculateEMA m prices period)) (int i - 1) =
      Some (calculateEMA m prices period ! (i - 1))"
    by (rule index_take_prev)
  then show ?thesis
    using assms by (simp add: calculateEMA_nth [OF assms(3)] ema_elem_def to_number_def)
qed

lemma reduce_sum_constant:
  assumes "\<forall>x\<in>set xs. x = Fin v"
    and "\<forall>i\<le>j + length xs. rnd m (of_nat i * v) = Fin (of_nat i * v)"
  shows "foldl (num_add m) (Fin (of_nat j * v)) xs = Fin (of_nat (j + length xs) * v)"
  using assms
proof (induction xs arbitrary: j)
  case Nil
  then show ?case by simp
next
  case (Cons x xs)
  have x: "x = Fin v"
    using Cons.prems(1) by simp
  have "Suc j \<le> j + length (x # xs) \<longrightarrow> rnd m (of_nat (Suc j) * v) = Fin (of_nat (Suc j) * v)"
    using Cons.prems(2) by blast
  then have r: "rnd m (of_nat (Suc j) * v) = Fin (of_nat (Suc j) * v)"
    by (simp del: of_nat_Suc)
  have "of_nat j * v + v = of_nat (Suc j) * v"
    by (simp add: algebra_simps)
  with r have step: "num_add m (Fin (of_nat j * v)) x = Fin (of_nat (Suc j) * v)"
    using x by (simp del: of_nat_Suc)
  have "foldl (num_add m) (Fin (of_nat (Suc j) * v)) xs = Fin (of_nat (Suc j + length xs) * v)"
    using Cons.prems by (intro Cons.IH) simp_all
  with step show ?case
    by simp
qed

lemma mean_constant:
  assumes "1 \<le> length xs" "\<forall>x\<in>set xs. x = Fin v"
    and "\<forall>i\<le>length xs. rnd m (of_nat i * v) = Fin (of_nat i * v)"
  shows "mean m xs = Fin v"
proof -
  have "foldl (num_add m) (Fin (of_nat 0 * v)) xs = Fin (of_nat (0 + length xs) * v)"
    using assms(2,3) by (intro reduce_sum_constant) simp_all
  then have s: "reduce_sum m xs = Fin (of_nat (length xs) * v)"
    by (simp add: reduce_sum_def)
  have "rnd m (of_nat 1 * v) = Fin (of_nat 1 * v)"
    using assms(1,3) by blast
  then have "rnd m v = Fin v"
    by simp
  moreover have "xs \<noteq> []"
    using assms(1) by auto
  ultimately show ?thesis
    by (simp add: mean_def s)
qed

lemmas fl64_eval = fl64_def ilog2_def pow2_def round_even_def Let_def

lemma bitlen_0 [simp]: "bitlen 0 = 0"
  by (simp add: bitlen.simps)

lemma bitlen_1 [simp]: "bitlen 1 = 1"
  by (simp add: bitlen.simps [of 1])

lemma bitlen_Bit0 [simp]: "bitlen (numeral (Num.Bit0 k)) = 1 + bitlen (numeral k)"
  by (subst bitlen.simps) simp

lemma bitlen_Bit1 [simp]: "bitlen (numeral (Num.Bit1 k)) = 1 + bitlen (numeral k)"
  by (subst bitlen.simps) simp

lemma seed_example:
  "mean Binary64 [Fin (3602879701896397 / 36028797018963968), Fin (3602879701896397 / 36028797018963968),
      Fin (3602879701896397 / 36028797018963968)] = Fin (7205759403792795 / 72057594037927936)"
  by (simp add: mean_def reduce_sum_def fl64_eval)

text \<open>
  C2, as the code has it. For a price sequence of length \<open>N\<close> and a window \<open>1 \<le> W \<le> N\<close>,
  \<open>calculateEMA\<close> returns \<open>N\<close> elements; those below the index \<open>W - 1\<close> are not-a-number, the
  one at \<open>W - 1\<close> is the mean of the first \<open>W\<close> prices, and each later one is
  \<open>(price[i] - ema[i - 1]) * k + ema[i - 1]\<close> with \<open>k = 2 / (W + 1)\<close>. When the first \<open>W\<close>
  prices all equal \<open>v\<close>, the element at \<open>W - 1\<close> is \<open>v\<close> provided the multiples
  \<open>v, 2 * v, \<dots>, W * v\<close> are computed without rounding error, which is always so in exact
  arithmetic.
\<close>

theorem calculateEMA_structure:
  "1 \<le> W \<and> W \<le> length prices \<longrightarrow>
     length (calculateEMA m prices (int W)) = length prices \<and>
     (\<forall>i. i < W - 1 \<longrightarrow> calculateEMA m prices (int W) ! i = NaN) \<and>
     calculateEMA m prices (int W) ! (W - 1) = mean m (take W prices) \<and>
     (\<forall>i. W - 1 < i \<and> i < length prices \<longrightarrow>
          calculateEMA m prices (int W) ! i =
            num_add m (num_mul m (num_sub m (prices ! i) (calculateEMA m prices (int W) ! (i - 1)))
                         (num_div m (Fin 2) (Fin (of_nat W + 1))))
              (calculateEMA m prices (int W) ! (i - 1))) \<and>
     ((\<forall>i. i < W \<longrightarrow> prices ! i = Fin v) \<and>
      (\<forall>j. j \<le> W \<longrightarrow> rnd m (of_nat j * v) = Fin (of_nat j * v)) \<longrightarrow>
        calculateEMA m prices (int W) ! (W - 1) = Fin v)"
proof (intro impI)
  assume h: "1 \<le> W \<and> W \<le> length prices"
  let ?E = "calculateEMA m prices (int W)"
  have early: "?E ! i = NaN" if "i < W - 1" for i
  proof -
    have "int i < int W - 1" "i < length prices"
      using that h by linarith+
    then show ?thesis
      by (rule calculateEMA_early)
  qed
  have seed: "?E ! (W - 1) = mean m (take W prices)"
    using h by (intro calculateEMA_seed) simp_all
  have k: "ema_multiplier m (int W) = num_div m (Fin 2) (Fin (of_nat W + 1))"
    by (simp add: ema_multiplier_def)
  have step: "?E ! i = num_add m (num_mul m (num_sub m (prices ! i) (?E ! (i - 1)))
                         (num_div m (Fin 2) (Fin (of_nat W + 1)))) (?E ! (i - 1))"
    if "W - 1 < i" "i < length prices" for i
  proof -
    have "int W - 1 < int i" "1 \<le> i"
      using that h by linarith+
    then show ?thesis
      using that(2) unfolding k [symmetric] by (rule calculateEMA_rec)
  qed
  have const: "?E ! (W - 1) = Fin v"
    if "\<forall>i. i < W \<longrightarrow> prices ! i = Fin v" "\<forall>j. j \<le> W \<longrightarrow> rnd m (of_nat j * v) = Fin (of_nat j * v)"
  proof -
    have len: "length (take W prices) = W"
      using h by simp
    have "\<forall>x\<in>set (take W prices). x = Fin v"
      using that(1) h by (auto simp: in_set_conv_nth)
    moreover have "\<forall>i\<le>length (take W prices). rnd m (of_nat i * v) = Fin (of_nat i * v)"
      using that(2) len by simp
    moreover have "1 \<le> length (take W prices)"
      using h len by simp
    ultimately have "mean m (take W prices) = Fin v"
      by (intro mean_constant)
    with seed show ?thesis
      by simp
  qed
  show "length ?E = length prices \<and> (\<forall>i. i < W - 1 \<longrightarrow> ?E ! i = NaN) \<and>
     ?E ! (W - 1) = mean m (take W prices) \<and>
     (\<forall>i. W - 1 < i \<and> i < length prices \<longrightarrow>
          ?E ! i = num_add m (num_mul m (num_sub m (prices ! i) (?E ! (i - 1)))
                         (num_div m (Fin 2) (Fin (of_nat W + 1)))) (?E ! (i - 1))) \<and>
     ((\<forall>i. i < W \<longrightarrow> prices ! i = Fin v) \<and>
      (\<forall>j. j \<le> W \<longrightarrow> rnd m (of_nat j * v) = Fin (of_nat j * v)) \<longrightarrow> ?E ! (W - 1) = Fin v)"
    using early seed step const by (simp add: calculateEMA_length)
qed

theorem calculateEMA_structure_witness:
  "(1::nat) \<le> 3 \<and> 3 \<le> length [Fin 100, Fin 100, Fin 100, Fin 113] \<and>
   calculateEMA Binary64 [Fin 100, Fin 100, Fin 100, Fin 113] (int 3) ! 1 = NaN \<and>
   calculateEMA Binary64 [Fin 100, Fin 100, Fin 100, Fin 113] (int 3) ! (3 - 1) = Fin 100 \<and>
   calculateEMA Binary64 [Fin 100, Fin 100, Fin 100, Fin 113] (int 3) ! 3 =
     num_add Binary64 (num_mul Binary64 (num_sub Binary64 (Fin 113) (Fin 100))
        (num_div Binary64 (Fin 2) (Fin 4))) (Fin 100)"
proof -
  let ?p = "[Fin 100, Fin 100, Fin 100, Fin 113]"
  let ?E = "calculateEMA Binary64 ?p (int 3)"
  have h: "(1::nat) \<le> 3 \<and> 3 \<le> length ?p"
    by simp
  have t: "length ?E = length ?p \<and> (\<forall>i. i < 3 - 1 \<longrightarrow> ?E ! i = NaN) \<and>
     ?E ! (3 - 1) = mean Binary64 (take 3 ?p) \<and>
     (\<forall>i. 3 - 1 < i \<and> i < length ?p \<longrightarrow>
          ?E ! i = num_add Binary64 (num_mul Binary64 (num_sub Binary64 (?p ! i) (?E ! (i - 1)))
                         (num_div Binary64 (Fin 2) (Fin (of_nat 3 + 1)))) (?E ! (i - 1))) \<and>
     ((\<forall>i. i < 3 \<longrightarrow> ?p ! i = Fin 100) \<and>
      (\<forall>j. j \<le> 3 \<longrightarrow> rnd Binary64 (of_nat j * 100) = Fin (of_nat j * 100)) \<longrightarrow> ?E ! (3 - 1) = Fin 100)"
    using calculateEMA_structure [of 3 ?p Binary64 100] h by blast
  have c1: "\<forall>i. i < 3 \<longrightarrow> ?p ! i = Fin 100"
    by (simp add: nth_Cons split: nat.split)
  have c2: "\<forall>j. j \<le> 3 \<longrightarrow> rnd Binary64 (of_nat j * 100) = Fin (of_nat j * 100)"
  proof (intro allI impI)
    fix j :: nat
    assume "j \<le> 3"
    then have "\<bar>int j * 100\<bar> < 2 ^ 53"
      by simp
    then have "rnd Binary64 (of_int (int j * 100)) = Fin (of_int (int j * 100))"
      by (rule rnd_int)
    then show "rnd Binary64 (of_nat j * 100) = Fin (of_nat j * 100)"
      by simp
  qed
  from t c1 c2 have seed: "?E ! (3 - 1) = Fin 100"
    by blast
  from t have "1 < (3::nat) - 1 \<longrightarrow> ?E ! 1 = NaN"
    by blast
  then have early: "?E ! 1 = NaN"
    by simp
  from t have "3 - 1 < (3::nat) \<and> 3 < length ?p \<longrightarrow>
      ?E ! 3 = num_add Binary64 (num_mul Binary64 (num_sub Binary64 (?p ! 3) (?E ! (3 - 1)))
                         (num_div Binary64 (Fin 2) (Fin (of_nat 3 + 1)))) (?E ! (3 - 1))"
    by blast
  then have "?E ! 3 = num_add Binary64 (num_mul Binary64 (num_sub Binary64 (?p ! 3) (?E ! (3 - 1)))
                         (num_div Binary64 (Fin 2) (Fin (of_nat 3 + 1)))) (?E ! (3 - 1))"
    by simp
  then have "?E ! 3 = num_add Binary64 (num_mul Binary64 (num_sub Binary64 (Fin 113) (Fin 100))
        (num_div Binary64 (Fin 2) (Fin 4))) (Fin 100)"
    unfolding seed by simp
  with early seed show ?thesis
    by simp
qed

text \<open>
  In binary64 the seed of a constant sequence need not be the constant: three prices of
  0.1 (the binary64 value nearest to it) have the sum 0.30000000000000004 and the seed
  0.10000000000000002.
\<close>

theorem calculateEMA_seed_inexact:
  "calculateEMA Binary64
     [Fin (3602879701896397 / 36028797018963968), Fin (3602879701896397 / 36028797018963968),
      Fin (3602879701896397 / 36028797018963968)] 3 ! 2 = Fin (7205759403792795 / 72057594037927936) \<and>
   Fin (7205759403792795 / 72057594037927936) \<noteq> Fin (3602879701896397 / 36028797018963968) \<and>
   fl64 (3602879701896397 / 36028797018963968) = Fin (3602879701896397 / 36028797018963968)"
proof -
  let ?c = "Fin (3602879701896397 / 36028797018963968)"
  have "calculateEMA Binary64 [?c, ?c, ?c] (int 3) ! (3 - 1) = mean Binary64 (take 3 [?c, ?c, ?c])"
    by (rule calculateEMA_seed) simp_all
  then have "calculateEMA Binary64 [?c, ?c, ?c] 3 ! 2 = mean Binary64 [?c, ?c, ?c]"
    by simp
  moreover have "fl64 (3602879701896397 / 36028797018963968) = ?c"
    by (simp add: fl64_eval)
  ultimately show ?thesis
    by (simp add: seed_example)
qed

section \<open>Relative strength index\<close>

lemma fold_push_map: "fold (\<lambda>i acc. acc @ [g i]) xs a = a @ map g xs"
  by (induction xs arbitrary: a) simp_all

lemma changes_of_map:
  "changes_of m prices = map (\<lambda>i. num_sub m (prices ! i) (prices ! (i - 1))) [1..<length prices]"
  by (simp add: changes_of_def fold_push_map)

lemma changes_of_length: "length (changes_of m prices) = length prices - 1"
  by (simp add: changes_of_map)

lemma changes_of_nth:
  "k < length prices - 1 \<Longrightarrow> changes_of m prices ! k = num_sub m (prices ! (k + 1)) (prices ! k)"
  by (simp add: changes_of_map)

lemma slice_from_last:
  assumes "0 < period" "period \<le> int (length xs)"
  shows "slice_from xs (- period) = drop (length xs - nat period) xs"
proof -
  have "nat (int (length xs) - period) = length xs - nat period"
    using assms by linarith
  then show ?thesis
    using assms by (simp add: slice_from_def slice_pos_def Let_def max_def)
qed

lemma in_set_drop_nth:
  assumes "x \<in> set (drop n xs)"
  shows "\<exists>j. n \<le> j \<and> j < length xs \<and> x = xs ! j"
proof -
  obtain i where i: "i < length (drop n xs)" and x: "drop n xs ! i = x"
    using assms unfolding in_set_conv_nth by blast
  have "n + i < length xs"
    using i by simp
  moreover have "x = xs ! (n + i)"
    using i x by simp
  ultimately show ?thesis
    by (intro exI [of _ "n + i"]) simp
qed

lemma zero_change:
  assumes "num_ge c (Fin 0)" "\<not> num_gt c (Fin 0)"
  shows "c = Fin 0"
  using assms by (cases c) (simp_all add: num_ge_def num_gt_def)

lemma no_losses:
  assumes "\<forall>c\<in>set cs. num_ge c (Fin 0)"
  shows "snd (fold (\<lambda>change (gains, losses).
             if num_gt change (Fin 0) then (num_add m gains change, losses)
             else (gains, num_add m losses (Math_abs change))) cs (g, Fin 0)) = Fin 0"
  using assms
proof (induction cs arbitrary: g)
  case Nil
  show ?case by simp
next
  case (Cons c cs)
  have ge: "num_ge c (Fin 0)" and rest: "\<forall>c\<in>set cs. num_ge c (Fin 0)"
    using Cons.prems by simp_all
  show ?case
  proof (cases "num_gt c (Fin 0)")
    case True
    then show ?thesis
      using Cons.IH [OF rest] by simp
  next
    case False
    with ge have "c = Fin 0"
      by (rule zero_change)
    then show ?thesis
      using False Cons.IH [OF rest] by simp
  qed
qed

lemma gains_losses_no_losses:
  "\<forall>c\<in>set cs. num_ge c (Fin 0) \<Longrightarrow> snd (gains_losses m cs) = Fin 0"
  unfolding gains_losses_def by (rule no_losses)

lemma calculateRSI_no_losses:
  assumes "period + 1 \<le> int (length prices)" "0 < period"
    and "snd (gains_losses m (slice_from (changes_of m prices) (- period))) = Fin 0"
  shows "calculateRSI m prices period = Fin 100"
  using assms by (simp add: calculateRSI_def Let_def split_beta)

text \<open>
  C6. On at least \<open>period + 1\<close> prices whose last \<open>period\<close> day-over-day differences are all
  non-negative, one of them positive, \<open>calculateRSI\<close> returns 100, in both arithmetics.
\<close>

theorem calculateRSI_only_gains:
  "period + 1 \<le> int (length prices) \<and>
   (\<forall>j. int (length prices) - 1 - period \<le> int j \<and> j < length prices - 1 \<longrightarrow>
        num_ge (num_sub m (prices ! (j + 1)) (prices ! j)) (Fin 0)) \<and>
   (\<exists>j. int (length prices) - 1 - period \<le> int j \<and> j < length prices - 1 \<and>
        num_gt (num_sub m (prices ! (j + 1)) (prices ! j)) (Fin 0))
   \<longrightarrow> calculateRSI m prices period = Fin 100"
proof (intro impI, elim conjE exE)
  fix j0
  assume len: "period + 1 \<le> int (length prices)"
    and nonneg: "\<forall>j. int (length prices) - 1 - period \<le> int j \<and> j < length prices - 1 \<longrightarrow>
        num_ge (num_sub m (prices ! (j + 1)) (prices ! j)) (Fin 0)"
    and j0: "int (length prices) - 1 - period \<le> int j0" "j0 < length prices - 1"
  have pos: "0 < period"
    using j0 by linarith
  let ?cs = "changes_of m prices"
  have le: "period \<le> int (length ?cs)"
    using len by (simp add: changes_of_length)
  have recent: "slice_from ?cs (- period) = drop (length ?cs - nat period) ?cs"
    using pos le by (rule slice_from_last)
  have "num_ge c (Fin 0)" if mem: "c \<in> set (drop (length ?cs - nat period) ?cs)" for c
  proof -
    obtain j where lo: "length ?cs - nat period \<le> j" and hi: "j < length ?cs"
      and c: "c = ?cs ! j"
      using in_set_drop_nth [OF mem] by blast
    have j: "j < length prices - 1"
      using hi by (simp add: changes_of_length)
    have "int (length prices) - 1 - period \<le> int j"
      using pos lo by (simp add: changes_of_length)
    with nonneg j have "num_ge (num_sub m (prices ! (j + 1)) (prices ! j)) (Fin 0)"
      by blast
    then show ?thesis
      using j by (simp add: c changes_of_nth)
  qed
  then have "snd (gains_losses m (slice_from ?cs (- period))) = Fin 0"
    unfolding recent by (intro gains_losses_no_losses) blast
  with len pos show "calculateRSI m prices period = Fin 100"
    by (rule calculateRSI_no_losses)
qed

theorem calculateRSI_only_gains_witness:
  "(2::int) + 1 \<le> int (length [Fin 7, Fin 5, Fin 5, Fin 8]) \<and>
   num_ge (num_sub Binary64 (Fin 5) (Fin 5)) (Fin 0) \<and>
   num_ge (num_sub Binary64 (Fin 8) (Fin 5)) (Fin 0) \<and>
   num_gt (num_sub Binary64 (Fin 8) (Fin 5)) (Fin 0) \<and>
   calculateRSI Binary64 [Fin 7, Fin 5, Fin 5, Fin 8] 2 = Fin 100"
proof -
  let ?p = "[Fin 7, Fin 5, Fin 5, Fin 8]"
  have a: "(2::int) + 1 \<le> int (length ?p)"
    by simp
  have g1: "num_ge (num_sub Binary64 (Fin 5) (Fin 5)) (Fin 0)"
    and g2: "num_ge (num_sub Binary64 (Fin 8) (Fin 5)) (Fin 0)"
    and g3: "num_gt (num_sub Binary64 (Fin 8) (Fin 5)) (Fin 0)"
    by (simp_all add: num_ge_def num_gt_def num_sub_def)
  have b: "\<forall>j. int (length ?p) - 1 - 2 \<le> int j \<and> j < length ?p - 1 \<longrightarrow>
        num_ge (num_sub Binary64 (?p ! (j + 1)) (?p ! j)) (Fin 0)"
  proof (intro allI impI)
    fix j :: nat
    assume "int (length ?p) - 1 - 2 \<le> int j \<and> j < length ?p - 1"
    then have "j = 1 \<or> j = 2"
      by auto
    then show "num_ge (num_sub Binary64 (?p ! (j + 1)) (?p ! j)) (Fin 0)"
      using g1 g2 by auto
  qed
  have c: "\<exists>j. int (length ?p) - 1 - 2 \<le> int j \<and> j < length ?p - 1 \<and>
        num_gt (num_sub Binary64 (?p ! (j + 1)) (?p ! j)) (Fin 0)"
    using g3 by (intro exI [of _ 2]) simp
  have "calculateRSI Binary64 ?p 2 = Fin 100"
    using calculateRSI_only_gains [of 2 ?p Binary64] a b c by blast
  with a g1 g2 g3 show ?thesis
    by blast
qed

section \<open>MACD\<close>

lemma index_in_range: "i < length xs \<Longrightarrow> index xs (int i) = Some (xs ! i)"
  by (simp add: index_def)

lemma macdLine_of_spec:
  assumes "length e12 = length prices" "length e26 = length prices"
  shows "macdLine_of m prices e12 e26 = macd_line_spec m e12 e26"
proof -
  let ?g = "\<lambda>i. if isNaN (to_number (index e12 (int i))) \<or> isNaN (to_number (index e26 (int i)))
                 then NaN
                 else num_sub m (to_number (index e12 (int i))) (to_number (index e26 (int i)))"
  have "macdLine_of m prices e12 e26 = fold (\<lambda>i acc. acc @ [?g i]) [0..<length prices] []"
    unfolding macdLine_of_def by (intro arg_cong2 [where f = "\<lambda>f. fold f [0..<length prices]"] ext) simp_all
  also have "\<dots> = map ?g [0..<length prices]"
    by (simp add: fold_push_map)
  also have "\<dots> = macd_line_spec m e12 e26"
    using assms by (intro nth_equalityI) (simp_all add: macd_line_spec_def index_in_range to_number_def isNaN_def)
  finally show ?thesis .
qed

lemma or_zero_last: "or_zero (index xs (int (length xs) - 1)) = last_defined_or_zero xs"
proof (cases "xs = []")
  case True
  then show ?thesis
    by (simp add: or_zero_def index_def truthy_opt_def last_defined_or_zero_def)
next
  case False
  then have eq: "int (length xs) - 1 = int (length xs - 1)" and lt: "length xs - 1 < length xs"
    by (simp_all add: of_nat_diff Suc_leI)
  have "index xs (int (length xs - 1)) = Some (xs ! (length xs - 1))"
    using lt by (rule index_in_range)
  then have "index xs (int (length xs) - 1) = Some (last xs)"
    unfolding eq using False by (simp add: last_conv_nth)
  then show ?thesis
    using False by (auto simp: or_zero_def truthy_opt_def truthy_def to_number_def last_defined_or_zero_def)
qed

lemma last_filter_defined:
  "last_defined_or_zero (filter (\<lambda>v. v \<noteq> NaN) xs) = last_or_zero (filter (\<lambda>v. v \<noteq> NaN) xs)"
proof (cases "filter (\<lambda>v. v \<noteq> NaN) xs = []")
  case True
  then show ?thesis
    by (simp add: last_defined_or_zero_def last_or_zero_def)
next
  case False
  then have "last (filter (\<lambda>v. v \<noteq> NaN) xs) \<in> set (filter (\<lambda>v. v \<noteq> NaN) xs)"
    by (rule last_in_set)
  then have "last (filter (\<lambda>v. v \<noteq> NaN) xs) \<noteq> NaN"
    by simp
  then show ?thesis
    by (simp add: last_defined_or_zero_def last_or_zero_def)
qed

lemma calculateMACD_unfold:
  "calculateMACD m prices =
     \<lparr>macd_result.macd = last_or_zero (valid_macd_spec m prices),
      signal = last_defined_or_zero (signal_line_spec m prices),
      histogram = num_sub m (last_or_zero (valid_macd_spec m prices))
                    (last_defined_or_zero (signal_line_spec m prices))\<rparr>"
proof -
  have line: "macdLine_of m prices (calculateEMA m prices 12) (calculateEMA m prices 26) =
      macd_line_spec m (calculateEMA m prices 12) (calculateEMA m prices 26)"
    by (rule macdLine_of_spec) (simp_all add: calculateEMA_length)
  show ?thesis
    by (simp add: calculateMACD_def Let_def line isNaN_def or_zero_last
        valid_macd_spec_def [symmetric] signal_line_spec_def [symmetric] last_filter_defined [unfolded valid_macd_spec_def [symmetric]])
qed

lemma calculateEMA_Nil: "calculateEMA m [] period = []"
  by (simp add: calculateEMA_def)

lemma valid_macd_short:
  assumes "length prices < 26"
  shows "valid_macd_spec m prices = []"
proof -
  have "calculateEMA m prices 26 ! i = NaN" if "i < length prices" for i
    using that assms by (intro calculateEMA_early) simp_all
  then have "\<forall>v\<in>set (macd_line_spec m (calculateEMA m prices 12) (calculateEMA m prices 26)). v = NaN"
    by (auto simp: macd_line_spec_def in_set_conv_nth calculateEMA_length)
  then show ?thesis
    by (simp add: valid_macd_spec_def filter_empty_conv)
qed

text \<open>
  C3, as the code has it. \<open>calculateMACD\<close> returns as \<open>macd\<close> the last value of the compacted
  MACD line, 0 if that is empty; as \<open>signal\<close> the last value of the signal line if that value
  is a number, and 0 if the signal line is empty or its last value is not a number; and as
  \<open>histogram\<close> their difference. On fewer than 26 prices all three are 0.
\<close>

theorem calculateMACD_compacted:
  "macd_result.macd (calculateMACD m prices) = last_or_zero (valid_macd_spec m prices) \<and>
   signal (calculateMACD m prices) = last_defined_or_zero (signal_line_spec m prices) \<and>
   histogram (calculateMACD m prices) =
     num_sub m (macd_result.macd (calculateMACD m prices)) (signal (calculateMACD m prices)) \<and>
   (length prices < 26 \<longrightarrow>
      calculateMACD m prices = \<lparr>macd_result.macd = Fin 0, signal = Fin 0, histogram = Fin 0\<rparr>)"
proof (intro conjI impI)
  show "macd_result.macd (calculateMACD m prices) = last_or_zero (valid_macd_spec m prices)"
    by (simp add: calculateMACD_unfold)
  show "signal (calculateMACD m prices) = last_defined_or_zero (signal_line_spec m prices)"
    by (simp add: calculateMACD_unfold)
  show "histogram (calculateMACD m prices) =
     num_sub m (macd_result.macd (calculateMACD m prices)) (signal (calculateMACD m prices))"
    by (simp add: calculateMACD_unfold)
  assume "length prices < 26"
  then have "valid_macd_spec m prices = []"
    by (rule valid_macd_short)
  then show "calculateMACD m prices = \<lparr>macd_result.macd = Fin 0, signal = Fin 0, histogram = Fin 0\<rparr>"
    by (simp add: calculateMACD_unfold signal_line_spec_def calculateEMA_Nil last_or_zero_def
        last_defined_or_zero_def num_sub_def)
qed

theorem calculateMACD_compacted_witness:
  "length [Fin 3, Fin 4, Fin 5] < 26 \<and>
   calculateMACD Binary64 [Fin 3, Fin 4, Fin 5] =
     \<lparr>macd_result.macd = Fin 0, signal = Fin 0, histogram = Fin 0\<rparr>"
  using calculateMACD_compacted [of Binary64 "[Fin 3, Fin 4, Fin 5]"] by simp

lemma fl64_2_13: "fl64 (2 / 13) = Fin (1385722962267845 / 9007199254740992)"
  by (simp add: fl64_eval)

lemma fl64_2_27: "fl64 (2 / 27) = Fin (667199944795629 / 9007199254740992)"
  by (simp add: fl64_eval)

lemma calculateEMA_constant:
  assumes W: "1 \<le> W" "W \<le> length prices"
    and const: "\<forall>i<length prices. prices ! i = Fin v"
    and exact: "\<forall>j\<le>W. rnd m (of_nat j * v) = Fin (of_nat j * v)"
    and mult: "ema_multiplier m (int W) = Fin k"
  shows "W - 1 \<le> i \<Longrightarrow> i < length prices \<Longrightarrow> calculateEMA m prices (int W) ! i = Fin v"
proof (induction i)
  case 0
  then have "W - 1 = 0"
    by simp
  moreover have "mean m (take W prices) = Fin v"
    using W const exact by (intro mean_constant) (auto simp: in_set_conv_nth)
  ultimately show ?case
    using calculateEMA_seed [OF W, of m] by simp
next
  case (Suc i)
  show ?case
  proof (cases "W - 1 = Suc i")
    case True
    have "mean m (take W prices) = Fin v"
      using W const exact by (intro mean_constant) (auto simp: in_set_conv_nth)
    then show ?thesis
      using calculateEMA_seed [OF W, of m] True by simp
  next
    case False
    with Suc.prems have prev: "calculateEMA m prices (int W) ! i = Fin v"
      by (intro Suc.IH) simp_all
    have "rnd m (of_nat 1 * v) = Fin (of_nat 1 * v)"
      using exact W(1) by blast
    then have v: "rnd m v = Fin v"
      by simp
    have p: "prices ! Suc i = Fin v"
      using const Suc.prems by simp
    have "int W - 1 < int (Suc i)"
      using False Suc.prems by linarith
    then have "calculateEMA m prices (int W) ! Suc i =
        num_add m (num_mul m (num_sub m (prices ! Suc i) (calculateEMA m prices (int W) ! (Suc i - 1)))
                     (ema_multiplier m (int W)))
          (calculateEMA m prices (int W) ! (Suc i - 1))"
      using Suc.prems by (intro calculateEMA_rec) simp_all
    then show ?thesis
      by (simp add: prev p mult num_sub_def v)
  qed
qed

lemma filter_all_but_last:
  assumes "xs \<noteq> []" "\<forall>i<length xs - 1. xs ! i = NaN" "last xs \<noteq> NaN"
  shows "filter (\<lambda>v. v \<noteq> NaN) xs = [last xs]"
proof -
  have "\<forall>x\<in>set (butlast xs). x = NaN"
    using assms(2) by (auto simp: in_set_conv_nth nth_butlast)
  then have "filter (\<lambda>v. v \<noteq> NaN) (butlast xs) = []"
    by (simp add: filter_empty_conv)
  moreover have "xs = butlast xs @ [last xs]"
    using assms(1) by simp
  ultimately have "filter (\<lambda>v. v \<noteq> NaN) xs = filter (\<lambda>v. v \<noteq> NaN) [last xs]"
    by (metis append_Nil filter_append)
  then show ?thesis
    using assms(3) by simp
qed

lemma macd_line_nth:
  assumes "i < length prices"
  shows "macd_line_spec m (calculateEMA m prices 12) (calculateEMA m prices 26) ! i =
           (if calculateEMA m prices 12 ! i = NaN \<or> calculateEMA m prices 26 ! i = NaN then NaN
            else num_sub m (calculateEMA m prices 12 ! i) (calculateEMA m prices 26 ! i))"
  using assms by (simp add: macd_line_spec_def calculateEMA_length)

lemma macd_line_length:
  "length (macd_line_spec m (calculateEMA m prices 12) (calculateEMA m prices 26)) = length prices"
  by (simp add: macd_line_spec_def calculateEMA_length)

lemma rnd_small_multiple:
  assumes "j \<le> 26"
  shows "rnd m (of_nat j * 100) = Fin (of_nat j * 100)"
proof -
  have "\<bar>int j * 100\<bar> < 2 ^ 53"
    using assms by simp
  then have "rnd m (of_int (int j * 100)) = Fin (of_int (int j * 100))"
    by (rule rnd_int)
  then show ?thesis
    by simp
qed

lemma fl64_small_multiple: "j \<le> 26 \<Longrightarrow> fl64 (of_nat j * 100) = Fin (of_nat j * 100)"
  using rnd_small_multiple [of j Binary64] by simp

lemma ema_multiplier_12:
  "ema_multiplier Binary64 12 = Fin (1385722962267845 / 9007199254740992)"
  by (simp add: ema_multiplier_def fl64_2_13)

lemma valid_macd_flat26: "valid_macd_spec Binary64 flat26 = [Fin 0]"
proof -
  let ?L = "macd_line_spec Binary64 (calculateEMA Binary64 flat26 12) (calculateEMA Binary64 flat26 26)"
  have len: "length flat26 = 26"
    by (simp add: flat26_def)
  have const: "\<forall>i<length flat26. flat26 ! i = Fin 100"
    by (simp add: flat26_def)
  have k: "ema_multiplier Binary64 (int 12) = Fin (1385722962267845 / 9007199254740992)"
    using ema_multiplier_12 by simp
  have "calculateEMA Binary64 flat26 (int 12) ! 25 = Fin 100"
    using k const
    by (intro calculateEMA_constant [where k = "1385722962267845 / 9007199254740992"])
       (simp_all add: len fl64_small_multiple)
  then have e12: "calculateEMA Binary64 flat26 12 ! 25 = Fin 100"
    by simp
  have "mean Binary64 (take 26 flat26) = Fin 100"
    by (intro mean_constant) (simp_all add: flat26_def fl64_small_multiple)
  then have "calculateEMA Binary64 flat26 (int 26) ! (26 - 1) = Fin 100"
    using calculateEMA_seed [of 26 flat26 Binary64] by (simp add: len)
  then have e26: "calculateEMA Binary64 flat26 26 ! 25 = Fin 100"
    by simp
  have early: "calculateEMA Binary64 flat26 26 ! i = NaN" if "i < 25" for i
    using that by (intro calculateEMA_early) (simp_all add: len)
  have L: "length ?L = 26"
    by (simp add: macd_line_length len)
  have ne: "?L \<noteq> []"
    using L by auto
  then have "last ?L = ?L ! (length ?L - 1)"
    by (rule last_conv_nth)
  also have "\<dots> = ?L ! 25"
    using L by simp
  also have "\<dots> = Fin 0"
    by (simp add: macd_line_nth len e12 e26 num_sub_def)
  finally have last: "last ?L = Fin 0" .
  have "\<forall>i<length ?L - 1. ?L ! i = NaN"
    using L early by (simp add: macd_line_nth len)
  with ne
  have "filter (\<lambda>v. v \<noteq> NaN) ?L = [last ?L]"
    using last by (intro filter_all_but_last) simp_all
  then show ?thesis
    by (simp add: valid_macd_spec_def last)
qed

lemma calculateEMA_single: "calculateEMA m [x] 9 = [NaN]"
  by (simp add: calculateEMA_def calculateEMA_step_def)

text \<open>
  On 26 prices the compacted MACD line has one value, so the signal line is the single entry
  not-a-number: it is not empty, its last value is not-a-number, and the signal returned is 0.
\<close>

theorem signal_not_last_of_signal_line:
  "signal_line_spec Binary64 (replicate 26 (Fin 100)) = [NaN] \<and>
   last_or_zero (signal_line_spec Binary64 (replicate 26 (Fin 100))) = NaN \<and>
   signal (calculateMACD Binary64 (replicate 26 (Fin 100))) = Fin 0"
proof -
  have "signal_line_spec Binary64 flat26 = [NaN]"
    by (simp add: signal_line_spec_def valid_macd_flat26 calculateEMA_single)
  then show ?thesis
    by (simp add: calculateMACD_unfold last_or_zero_def last_defined_or_zero_def flat26_def)
qed

section \<open>Rounding error of binary64\<close>














section \<open>MACD on a rising line\<close>














lemma num_add_NaN_right [simp]: "num_add m a NaN = NaN"
  by (cases a) simp_all












section \<open>Rules of the scorer\<close>

text \<open>
  C4, as the code has it. The snapshot on which every rule adds gives the score 95 before
  and after the clamp, the one on which every rule subtracts gives 5; no score before the
  clamp lies outside these, and \<open>overallScore\<close> is an integer between 0 and 100.
\<close>

theorem analyzeStock_extremes:
  "raw_score (Fin 120) bullish_snapshot = 95 \<and>
   analyzeStock (Fin 120) bullish_snapshot =
     \<lparr>trend = bullish, rsiSignal = oversold, macdSignal = buy, overallScore = 95\<rparr> \<and>
   raw_score (Fin 80) bearish_snapshot = 5 \<and>
   analyzeStock (Fin 80) bearish_snapshot =
     \<lparr>trend = bearish, rsiSignal = overbought, macdSignal = sell, overallScore = 5\<rparr> \<and>
   (\<forall>currentPrice indicators.
      raw_score (Fin 80) bearish_snapshot \<le> raw_score currentPrice indicators \<and>
      raw_score currentPrice indicators \<le> raw_score (Fin 120) bullish_snapshot \<and>
      0 \<le> overallScore (analyzeStock currentPrice indicators) \<and>
      overallScore (analyzeStock currentPrice indicators) \<le> 100)"
proof -
  have "5 \<le> raw_score p ind \<and> raw_score p ind \<le> 95 \<and>
      0 \<le> overallScore (analyzeStock p ind) \<and> overallScore (analyzeStock p ind) \<le> 100" for p ind
  proof -
    obtain k :: int where r: "raw_score p ind = of_int k"
      using raw_score_values [of p ind] by (auto elim: Ints_cases)
    have k: "5 \<le> k" "k \<le> 95"
      using raw_score_values [of p ind] unfolding r by simp_all
    have "max 0 (min 100 (of_int k :: rat)) = of_int k"
      using k by simp
    then show ?thesis
      using k by (simp add: overallScore_unfold r Math_round_of_int)
  qed
  then show ?thesis
    by (simp add: raw_bullish raw_bearish analyzeStock_bullish analyzeStock_bearish)
qed

text \<open>No price and snapshot have a score above 100 or below 0 before the clamp.\<close>

theorem no_score_outside_clamp:
  "\<not> (\<exists>currentPrice indicators.
         100 < raw_score currentPrice indicators \<or> raw_score currentPrice indicators < 0)"
proof
  assume "\<exists>currentPrice indicators.
      100 < raw_score currentPrice indicators \<or> raw_score currentPrice indicators < 0"
  then obtain p ind where "100 < raw_score p ind \<or> raw_score p ind < 0"
    by blast
  then show False
    using raw_score_values [of p ind] by linarith
qed

text \<open>The returned score in terms of the returned labels.\<close>

lemma overallScore_raw: "of_int (overallScore (analyzeStock p ind)) = raw_score p ind"
proof -
  obtain k :: int where r: "raw_score p ind = of_int k"
    using raw_score_values [of p ind] by (auto elim: Ints_cases)
  have k: "5 \<le> k" "k \<le> 95"
    using raw_score_values [of p ind] unfolding r by simp_all
  have "max 0 (min 100 (of_int k :: rat)) = of_int k"
    using k by simp
  then show ?thesis
    by (simp add: overallScore_unfold r Math_round_of_int)
qed

lemma labels_unfold:
  "trend (analyzeStock p ind) = fst (trend_analysis p ind 50)"
  "rsiSignal (analyzeStock p ind) = fst (rsi_analysis ind s1)"
  "signals.macdSignal (analyzeStock p ind) = fst (macd_analysis ind s2)"
  by (simp_all add: analyzeStock_def analyzeStock_blocks_def Let_def split_beta
      rsi_analysis_def macd_analysis_def)

lemma rsi_analysis_bonus: "snd (rsi_analysis ind s) = s + rsi_bonus (fst (rsi_analysis ind s))"
  by (simp add: rsi_analysis_def)

lemma macd_analysis_bonus: "snd (macd_analysis ind s) = s + macd_bonus (fst (macd_analysis ind s))"
  by (simp add: macd_analysis_def)

lemma trend_analysis_bonus:
  "snd (trend_analysis p ind s) =
     s + trend_bonus (fst (trend_analysis p ind s)) +
     (if truthy_opt (sma20 ind) \<and> truthy_opt (sma50 ind) \<and> truthy_opt (sma200 ind)
      then (if num_gt p (to_number (sma200 ind)) then 10 else - 10) else 0)"
  by (simp add: trend_analysis_def Let_def)

lemma score_decomposition:
  "of_int (overallScore (analyzeStock p ind)) =
     50 + trend_bonus (trend (analyzeStock p ind)) +
     (if truthy_opt (sma20 ind) \<and> truthy_opt (sma50 ind) \<and> truthy_opt (sma200 ind)
      then (if num_gt p (to_number (sma200 ind)) then 10 else - 10) else 0) +
     rsi_bonus (rsiSignal (analyzeStock p ind)) +
     macd_bonus (signals.macdSignal (analyzeStock p ind))"
proof -
  define s1 where "s1 = snd (trend_analysis p ind 50)"
  define s2 where "s2 = snd (rsi_analysis ind s1)"
  define T where "T = trend_bonus (fst (trend_analysis p ind 50))"
  define A :: rat where "A = (if truthy_opt (sma20 ind) \<and> truthy_opt (sma50 ind) \<and> truthy_opt (sma200 ind)
      then (if num_gt p (to_number (sma200 ind)) then 10 else - 10) else 0)"
  define R where "R = rsi_bonus (fst (rsi_analysis ind s1))"
  define M where "M = macd_bonus (fst (macd_analysis ind s2))"
  have e1: "s1 = 50 + T + A"
    unfolding s1_def T_def A_def by (rule trend_analysis_bonus)
  have e2: "s2 = s1 + R"
    unfolding s2_def R_def by (rule rsi_analysis_bonus)
  have "raw_score p ind = snd (macd_analysis ind s2)"
    by (simp add: raw_score_unfold s1_def s2_def)
  also have "\<dots> = s2 + M"
    unfolding M_def by (rule macd_analysis_bonus)
  finally have "raw_score p ind = 50 + T + A + R + M"
    using e1 e2 by simp
  then show ?thesis
    unfolding overallScore_raw T_def A_def R_def M_def
      labels_unfold(1) labels_unfold(2) [of p ind s1] labels_unfold(3) [of p ind s2] .
qed

text \<open>
  C5, as the code has it. When \<open>sma20\<close>, \<open>sma50\<close> and \<open>sma200\<close> are all present and each is a
  number other than zero, the first block adds 10 to the score if the price is above
  \<open>sma200\<close> and subtracts 10 otherwise, whichever trend branch it took: the returned score is
  50, plus what the three returned labels stand for, plus or minus that 10. When one of the
  three is absent, zero or not-a-number, the block leaves the score as it is.
\<close>

theorem sma200_rule_on_truthy:
  "(truthy_opt (sma20 indicators) \<and> truthy_opt (sma50 indicators) \<and> truthy_opt (sma200 indicators) \<longrightarrow>
      snd (trend_analysis currentPrice indicators score) =
        score + trend_bonus (fst (trend_analysis currentPrice indicators score)) +
        (if num_gt currentPrice (to_number (sma200 indicators)) then 10 else - 10) \<and>
      of_int (overallScore (analyzeStock currentPrice indicators)) =
        50 + trend_bonus (trend (analyzeStock currentPrice indicators)) +
        (if num_gt currentPrice (to_number (sma200 indicators)) then 10 else - 10) +
        rsi_bonus (rsiSignal (analyzeStock currentPrice indicators)) +
        macd_bonus (signals.macdSignal (analyzeStock currentPrice indicators))) \<and>
   (\<not> (truthy_opt (sma20 indicators) \<and> truthy_opt (sma50 indicators) \<and> truthy_opt (sma200 indicators)) \<longrightarrow>
      trend_analysis currentPrice indicators score = (neutral, score) \<and>
      of_int (overallScore (analyzeStock currentPrice indicators)) =
        50 + rsi_bonus (rsiSignal (analyzeStock currentPrice indicators)) +
        macd_bonus (signals.macdSignal (analyzeStock currentPrice indicators)))"
proof (intro conjI impI)
  assume t: "truthy_opt (sma20 indicators) \<and> truthy_opt (sma50 indicators) \<and> truthy_opt (sma200 indicators)"
  show "snd (trend_analysis currentPrice indicators score) =
        score + trend_bonus (fst (trend_analysis currentPrice indicators score)) +
        (if num_gt currentPrice (to_number (sma200 indicators)) then 10 else - 10)"
    using t trend_analysis_bonus [of currentPrice indicators score] by simp
  show "of_int (overallScore (analyzeStock currentPrice indicators)) =
        50 + trend_bonus (trend (analyzeStock currentPrice indicators)) +
        (if num_gt currentPrice (to_number (sma200 indicators)) then 10 else - 10) +
        rsi_bonus (rsiSignal (analyzeStock currentPrice indicators)) +
        macd_bonus (signals.macdSignal (analyzeStock currentPrice indicators))"
    using t score_decomposition [of currentPrice indicators] by simp
next
  assume f: "\<not> (truthy_opt (sma20 indicators) \<and> truthy_opt (sma50 indicators) \<and> truthy_opt (sma200 indicators))"
  then show skip: "trend_analysis currentPrice indicators score = (neutral, score)"
    by (simp add: trend_analysis_def)
  have "trend (analyzeStock currentPrice indicators) = neutral"
    using f by (simp add: labels_unfold(1) trend_analysis_def)
  then show "of_int (overallScore (analyzeStock currentPrice indicators)) =
        50 + rsi_bonus (rsiSignal (analyzeStock currentPrice indicators)) +
        macd_bonus (signals.macdSignal (analyzeStock currentPrice indicators))"
    using f score_decomposition [of currentPrice indicators] by simp
qed

theorem sma200_rule_on_truthy_witness:
  "truthy_opt (sma20 bullish_snapshot) \<and> truthy_opt (sma50 bullish_snapshot) \<and>
   truthy_opt (sma200 bullish_snapshot) \<and>
   analyzeStock (Fin 95) bullish_snapshot =
     \<lparr>trend = neutral, rsiSignal = oversold, macdSignal = buy, overallScore = 80\<rparr> \<and>
   overallScore (analyzeStock (Fin 95) bullish_snapshot) = 50 + 0 + 10 + 10 + 10 \<and>
   analyzeStock (Fin 80) bullish_snapshot =
     \<lparr>trend = neutral, rsiSignal = oversold, macdSignal = buy, overallScore = 60\<rparr> \<and>
   overallScore (analyzeStock (Fin 80) bullish_snapshot) = 50 + 0 - 10 + 10 + 10 \<and>
   \<not> truthy_opt (sma20 zero_sma_snapshot) \<and>
   trend_analysis (Fin 10) zero_sma_snapshot 50 = (neutral, 50)"
proof -
  have t: "truthy_opt (sma20 bullish_snapshot) \<and> truthy_opt (sma50 bullish_snapshot) \<and>
      truthy_opt (sma200 bullish_snapshot)"
    by (simp add: bullish_snapshot_def truthy_opt_def truthy_def)
  have z: "\<not> (truthy_opt (sma20 zero_sma_snapshot) \<and> truthy_opt (sma50 zero_sma_snapshot) \<and>
      truthy_opt (sma200 zero_sma_snapshot))"
    by (simp add: zero_sma_snapshot_def truthy_opt_def truthy_def)
  have a95: "analyzeStock (Fin 95) bullish_snapshot =
      \<lparr>trend = neutral, rsiSignal = oversold, macdSignal = buy, overallScore = 80\<rparr>"
    by (simp add: analyzeStock_def analyzeStock_blocks_def trend_analysis_def rsi_analysis_def
        macd_analysis_def bullish_snapshot_def truthy_opt_def truthy_def to_number_def num_gt_def
        Math_round_def Let_def)
  have a80: "analyzeStock (Fin 80) bullish_snapshot =
      \<lparr>trend = neutral, rsiSignal = oversold, macdSignal = buy, overallScore = 60\<rparr>"
    by (simp add: analyzeStock_def analyzeStock_blocks_def trend_analysis_def rsi_analysis_def
        macd_analysis_def bullish_snapshot_def truthy_opt_def truthy_def to_number_def num_gt_def
        Math_round_def Let_def)
  have v: "to_number (sma200 bullish_snapshot) = Fin 90"
    by (simp add: bullish_snapshot_def to_number_def)
  have "(of_int (overallScore (analyzeStock (Fin 95) bullish_snapshot)) :: rat) =
      50 + trend_bonus (trend (analyzeStock (Fin 95) bullish_snapshot)) +
      (if num_gt (Fin 95) (to_number (sma200 bullish_snapshot)) then 10 else - 10) +
      rsi_bonus (rsiSignal (analyzeStock (Fin 95) bullish_snapshot)) +
      macd_bonus (signals.macdSignal (analyzeStock (Fin 95) bullish_snapshot))"
    using sma200_rule_on_truthy [of bullish_snapshot "Fin 95" 50] t by blast
  then have "(of_int (overallScore (analyzeStock (Fin 95) bullish_snapshot)) :: rat) = of_int (50 + 0 + 10 + 10 + 10)"
    by (simp add: a95 v num_gt_def)
  then have s95: "overallScore (analyzeStock (Fin 95) bullish_snapshot) = 50 + 0 + 10 + 10 + 10"
    by (simp only: of_int_eq_iff)
  have "(of_int (overallScore (analyzeStock (Fin 80) bullish_snapshot)) :: rat) =
      50 + trend_bonus (trend (analyzeStock (Fin 80) bullish_snapshot)) +
      (if num_gt (Fin 80) (to_number (sma200 bullish_snapshot)) then 10 else - 10) +
      rsi_bonus (rsiSignal (analyzeStock (Fin 80) bullish_snapshot)) +
      macd_bonus (signals.macdSignal (analyzeStock (Fin 80) bullish_snapshot))"
    using sma200_rule_on_truthy [of bullish_snapshot "Fin 80" 50] t by blast
  then have "(of_int (overallScore (analyzeStock (Fin 80) bullish_snapshot)) :: rat) = of_int (50 + 0 - 10 + 10 + 10)"
    by (simp add: a80 v num_gt_def)
  then have s80: "overallScore (analyzeStock (Fin 80) bullish_snapshot) = 50 + 0 - 10 + 10 + 10"
    by (simp only: of_int_eq_iff)
  have "trend_analysis (Fin 10) zero_sma_snapshot 50 = (neutral, 50)"
    using sma200_rule_on_truthy [of zero_sma_snapshot "Fin 10" 50] z by blast
  moreover have "\<not> truthy_opt (sma20 zero_sma_snapshot)"
    by (simp add: zero_sma_snapshot_def truthy_opt_def truthy_def)
  ultimately show ?thesis
    using t a95 a80 s95 s80 by blast
qed

text \<open>
  With \<open>sma20 = 0\<close> all three averages are present and the price 10 is above \<open>sma200 = 5\<close>,
  but the block is skipped and the score stays 50.
\<close>

theorem sma200_rule_skipped_on_zero:
  "sma20 zero_sma_snapshot = Some (Fin 0) \<and> sma50 zero_sma_snapshot = Some (Fin 5) \<and>
   sma200 zero_sma_snapshot = Some (Fin 5) \<and> num_gt (Fin 10) (Fin 5) \<and>
   trend_analysis (Fin 10) zero_sma_snapshot 50 = (neutral, 50) \<and>
   raw_score (Fin 10) zero_sma_snapshot = 50 \<and>
   overallScore (analyzeStock (Fin 10) zero_sma_snapshot) = 50"
  by (simp add: zero_sma_snapshot_def trend_analysis_def raw_score_unfold overallScore_unfold
      rsi_analysis_def macd_analysis_def truthy_opt_def truthy_def num_gt_def Math_round_def)

end
